theory Spec2Isabelle
  imports Main "HOL-Library.Sublist" "HOL-Library.Word"
begin

text \<open>
  A shallow embedding of the Exasol websocket client: the bulk import and export
  orchestration of \<^verbatim>\<open>bulk-api.go\<close> (retry loops, the race of transfer, command and
  timer, the buffer variants) and, of the session, \<^verbatim>\<open>send\<close>, \<^verbatim>\<open>Execute\<close> and
  \<^verbatim>\<open>FetchChan\<close>. What lies outside the sources (the local endpoint, the socket, the
  server) is a parameter of the functions that use it.
\<close>

section \<open>Errors and the two error signatures\<close>

text \<open>
  A Go \<^verbatim>\<open>error\<close> is used by this code only through its message (\<^verbatim>\<open>err.Error()\<close>), so
  an error is its message and \<^verbatim>\<open>nil\<close> is \<open>None\<close>.
\<close>

type_synonym error = string

type_synonym chunk = "8 word list"

text \<open>
  \<^verbatim>\<open>regexp.MustCompile(`failed after 0 bytes.+Connection refused`)\<close>: the match is
  unanchored, and \<^verbatim>\<open>.\<close> is any character but a newline. \<open>dot_plus_then lit s\<close> is
  \<^verbatim>\<open>.+lit\<close> anchored at the start of \<open>s\<close>.
\<close>

fun dot_plus_then :: "string \<Rightarrow> string \<Rightarrow> bool" where
  "dot_plus_then lit [] = False"
| "dot_plus_then lit (c # cs) = (c \<noteq> CHR 0x0A \<and> (prefix lit cs \<or> dot_plus_then lit cs))"

definition retryable_at :: "string \<Rightarrow> bool" where
  "retryable_at s =
     (prefix ''failed after 0 bytes'' s \<and>
      dot_plus_then ''Connection refused'' (drop (length ''failed after 0 bytes'') s))"

fun retryable_match :: "string \<Rightarrow> bool" where
  "retryable_match [] = retryable_at []"
| "retryable_match (c # cs) = (retryable_at (c # cs) \<or> retryable_match cs)"

definition retryableError :: "error option \<Rightarrow> bool" where
  "retryableError err = (case err of None \<Rightarrow> False | Some m \<Rightarrow> retryable_match m)"

text \<open>\<^verbatim>\<open>regexp.MustCompile("Statement handle not found").MatchString\<close>: a substring test.\<close>

fun contains :: "string \<Rightarrow> string \<Rightarrow> bool" where
  "contains lit [] = prefix lit []"
| "contains lit (c # cs) = (prefix lit (c # cs) \<or> contains lit cs)"

definition handle_not_found :: "error \<Rightarrow> bool" where
  "handle_not_found m = contains ''Statement handle not found'' m"

section \<open>What a call can do besides returning\<close>

text \<open>
  \<open>Fatal\<close> is a call of \<^verbatim>\<open>c.log.Fatal\<close>, \<open>Panicked\<close> a Go panic, \<open>Blocked\<close> a call that
  waits forever on a channel.
\<close>

datatype 'a outcome = Returned 'a | Fatal string | Panicked string | Blocked

text \<open>
  Modelled from the spec: \<^verbatim>\<open>Logger.Fatal\<close> (the logger is not among the sources). The
  spec's design notes describe these calls as "terminating the process when a required
  argument is nil": the call does not return, and the process ends with the message.
\<close>

definition log_Fatal :: "string \<Rightarrow> 'a outcome" where
  "log_Fatal msg = Fatal msg"

section \<open>Channels\<close>

record 'a chan =
  capacity :: nat
  queue :: "'a list"
  closed :: bool

definition make_chan :: "nat \<Rightarrow> 'a chan" where
  "make_chan n = \<lparr>capacity = n, queue = [], closed = False\<rparr>"

definition chan_send :: "'a \<Rightarrow> 'a chan \<Rightarrow> 'a chan outcome" where
  "chan_send v c =
     (if closed c then Panicked ''send on closed channel''
      else if length (queue c) < capacity c then Returned (c\<lparr>queue := queue c @ [v]\<rparr>)
      else Blocked)"

definition chan_close :: "'a chan \<Rightarrow> 'a chan outcome" where
  "chan_close c =
     (if closed c then Panicked ''close of closed channel'' else Returned (c\<lparr>closed := True\<rparr>))"

section \<open>One bulk transfer attempt: the race of transfer, command and timer\<close>

text \<open>
  Everything outside this code in one attempt: what \<^verbatim>\<open>initProxy\<close> returns, when (in
  nanoseconds after the \<^verbatim>\<open>select\<close> starts; \<open>None\<close> is never) the endpoint's
  \<^verbatim>\<open>Write\<close>/\<^verbatim>\<open>Read\<close> and the command's response deliver their results, what those
  results are, and the order in which the runtime polls the cases of the \<^verbatim>\<open>select\<close>
  (Go polls them in a random order and takes the first that is ready).
\<close>

datatype event = DataErr | RespErr | TimeAfter

record transfer =
  init_err :: "error option"
  data_at :: "nat option"
  data_err :: "error option"
  data_bytes :: "64 word"
  data_chunks :: "chunk list"
  resp_at :: "nat option"
  resp_err :: "error option"
  pollorder :: "event list"

text \<open>
  \<^verbatim>\<open>time.Duration(c.Conf.Timeout) * time.Second\<close>: the \<^verbatim>\<open>uint32\<close> is widened to the
  64-bit \<^verbatim>\<open>Duration\<close> and multiplied by \<open>10^9\<close>.
\<close>

definition timeout_ns :: "32 word \<Rightarrow> nat" where
  "timeout_ns t = unat ((ucast t :: 64 word) * 1000000000)"

definition arrival :: "transfer \<Rightarrow> nat \<Rightarrow> event \<Rightarrow> nat option" where
  "arrival tr T e = (case e of DataErr \<Rightarrow> data_at tr | RespErr \<Rightarrow> resp_at tr | TimeAfter \<Rightarrow> Some T)"

definition min_at :: "nat option \<Rightarrow> nat \<Rightarrow> nat" where
  "min_at a t = (case a of None \<Rightarrow> t | Some x \<Rightarrow> min x t)"

text \<open>The instant at which the \<^verbatim>\<open>select\<close> wakes up: the first arrival.\<close>

definition wake :: "transfer \<Rightarrow> nat \<Rightarrow> nat" where
  "wake tr T = min_at (data_at tr) (min_at (resp_at tr) T)"

definition ready :: "transfer \<Rightarrow> nat \<Rightarrow> event \<Rightarrow> bool" where
  "ready tr T e = (case arrival tr T e of None \<Rightarrow> False | Some t \<Rightarrow> t \<le> wake tr T)"

definition select_case :: "transfer \<Rightarrow> nat \<Rightarrow> event" where
  "select_case tr T =
     (case filter (ready tr T) (pollorder tr @ [DataErr, RespErr, TimeAfter]) of
        e # _ \<Rightarrow> e
      | [] \<Rightarrow> TimeAfter)"

text \<open>
  The \<^verbatim>\<open>select\<close> of \<^verbatim>\<open>streamExecuteNoRetry\<close> and \<^verbatim>\<open>streamQuery\<close>: the result is the
  instant of return and \<^verbatim>\<open>err\<close>, or \<open>None\<close> when the second receive waits forever.
\<close>

definition race :: "string \<Rightarrow> 32 word \<Rightarrow> transfer \<Rightarrow> (nat \<times> error option) option" where
  "race timed_out t tr =
     (case select_case tr (timeout_ns t) of
        DataErr \<Rightarrow>
          (case data_err tr of
             Some e \<Rightarrow> Some (wake tr (timeout_ns t), Some e)
           | None \<Rightarrow>
               (case resp_at tr of
                  None \<Rightarrow> None
                | Some r \<Rightarrow> Some (max r (wake tr (timeout_ns t)), resp_err tr)))
      | RespErr \<Rightarrow>
          (case resp_err tr of
             Some e \<Rightarrow> Some (wake tr (timeout_ns t), Some e)
           | None \<Rightarrow>
               (case data_at tr of
                  None \<Rightarrow> None
                | Some d \<Rightarrow> Some (max d (wake tr (timeout_ns t)), data_err tr)))
      | TimeAfter \<Rightarrow> Some (timeout_ns t, Some timed_out))"

text \<open>
  \<^verbatim>\<open>bytesWritten\<close> is assigned by the writer task when \<^verbatim>\<open>Write\<close> returns; a return
  before that instant sees the initial \<open>0\<close>.
\<close>

definition bytes_seen :: "transfer \<Rightarrow> nat \<Rightarrow> 64 word" where
  "bytes_seen tr now =
     (case data_at tr of None \<Rightarrow> 0 | Some d \<Rightarrow> if d \<le> now then data_bytes tr else 0)"

text \<open>\<^verbatim>\<open>fmt.Errorf("Unable to bulk import data: %s\\n%s", origSQL, err)\<close>\<close>

definition import_error :: "string \<Rightarrow> error \<Rightarrow> error" where
  "import_error origSQL e = ''Unable to bulk import data: '' @ origSQL @ [CHR 0x0A] @ e"

definition streamExecuteNoRetry ::
  "32 word \<Rightarrow> string \<Rightarrow> transfer \<Rightarrow> (64 word \<times> error option) option" where
  "streamExecuteNoRetry t origSQL tr =
     (case init_err tr of
        Some e \<Rightarrow> Some (0, Some e)
      | None \<Rightarrow>
          (case race ''Timed out doing StreamExecute'' t tr of
             None \<Rightarrow> None
           | Some (now, err) \<Rightarrow>
               Some (bytes_seen tr now,
                 (case err of
                    None \<Rightarrow> None
                  | Some e \<Rightarrow> Some (import_error origSQL e)))))"

section \<open>The session state the bulk engine touches\<close>

text \<open>
  \<open>started\<close> counts the transfer attempts begun so far; the \<open>k\<close>-th attempt meets the
  \<open>k\<close>-th \<open>transfer\<close> of the world. \<open>errlog\<close> holds the arguments of each
  \<^verbatim>\<open>c.error\<close> call made by \<^verbatim>\<open>StreamExecute\<close>, \<^verbatim>\<open>StreamQuery\<close> and
  \<^verbatim>\<open>streamQuery\<close> themselves; what \<^verbatim>\<open>initProxy\<close> and the transport log on their
  way is not recorded.
\<close>

record bulk_conn =
  Timeout :: "32 word"
  SuppressError :: bool
  errlog :: "string list list"
  started :: nat

type_synonym import_world = "string \<Rightarrow> chunk chan \<Rightarrow> nat \<Rightarrow> transfer"
type_synonym export_world = "string \<Rightarrow> nat \<Rightarrow> transfer"

text \<open>
  Modelled from the spec: \<^verbatim>\<open>Conn.error\<close> (not among the sources). Errors are logged
  unless the session's error-suppression flag is set.
\<close>

definition c_error :: "string list \<Rightarrow> bulk_conn \<Rightarrow> bulk_conn" where
  "c_error args c = (if SuppressError c then c else c\<lparr>errlog := errlog c @ [args]\<rparr>)"

section \<open>Bulk import\<close>

text \<open>
  The body of the loop \<^verbatim>\<open>for range []int{1, 2}\<close> of \<^verbatim>\<open>StreamExecute\<close>, over the
  remaining elements of the slice.
\<close>

fun StreamExecute_loop ::
  "import_world \<Rightarrow> string \<Rightarrow> chunk chan \<Rightarrow> int list \<Rightarrow> bulk_conn \<Rightarrow> error option outcome \<times> bulk_conn"
where
  "StreamExecute_loop w origSQL data [] c = (Returned None, c)"
| "StreamExecute_loop w origSQL data (_ # rest) c =
     (case streamExecuteNoRetry (Timeout c) origSQL (w origSQL data (started c)) of
        None \<Rightarrow> (Blocked, c\<lparr>started := Suc (started c)\<rparr>)
      | Some (bytesWritten, None) \<Rightarrow> (Returned None, c\<lparr>started := Suc (started c)\<rparr>)
      | Some (bytesWritten, Some err) \<Rightarrow>
          (if retryableError (Some err) then
             (if bytesWritten = 0 then
                StreamExecute_loop w origSQL data rest
                  (c_error [''Retrying...''] (c\<lparr>started := Suc (started c)\<rparr>))
              else
                (Returned (Some err),
                 c_error [err]
                   (c_error [''Data already sent can't retry...'']
                      (c\<lparr>started := Suc (started c)\<rparr>))))
           else (Returned (Some err), c_error [err] (c\<lparr>started := Suc (started c)\<rparr>))))"

definition StreamExecute ::
  "import_world \<Rightarrow> string \<Rightarrow> chunk chan option \<Rightarrow> bulk_conn \<Rightarrow> error option outcome \<times> bulk_conn"
where
  "StreamExecute w origSQL data c =
     (case data of
        None \<Rightarrow> (log_Fatal ''You must pass in a []byte chan to StreamExecute'', c)
      | Some ch \<Rightarrow> StreamExecute_loop w origSQL ch [1, 2] c)"

text \<open>A \<^verbatim>\<open>*bytes.Buffer\<close> is its contents; the nil pointer is \<open>None\<close>.\<close>

definition BulkExecute ::
  "import_world \<Rightarrow> string \<Rightarrow> chunk option \<Rightarrow> bulk_conn \<Rightarrow> error option outcome \<times> bulk_conn"
where
  "BulkExecute w sql data c =
     (case data of
        None \<Rightarrow> (log_Fatal ''You must pass in a bytes.Buffer pointer to BulkExecute'', c)
      | Some bytes \<Rightarrow>
          (case chan_send bytes (make_chan 1) of
             Returned dataChan \<Rightarrow>
               (case chan_close dataChan of
                  Returned dataChan' \<Rightarrow> StreamExecute w sql (Some dataChan') c
                | Fatal m \<Rightarrow> (Fatal m, c)
                | Panicked m \<Rightarrow> (Panicked m, c)
                | Blocked \<Rightarrow> (Blocked, c))
           | Fatal m \<Rightarrow> (Fatal m, c)
           | Panicked m \<Rightarrow> (Panicked m, c)
           | Blocked \<Rightarrow> (Blocked, c)))"

section \<open>Bulk export\<close>

text \<open>
  The \<^verbatim>\<open>Rows\<close> object. \<open>Data\<close> is the sequence of chunks sent on the channel so far
  (the consumer is taken to keep receiving), \<open>Data_closed\<close> whether it has been closed.
\<close>

record Rows =
  BytesRead :: "64 word"
  Data :: "chunk list"
  Data_closed :: bool
  Error :: "error option"

definition streamQuery ::
  "string \<Rightarrow> transfer \<Rightarrow> Rows \<times> bulk_conn \<Rightarrow> (error option \<times> Rows \<times> bulk_conn) option" where
  "streamQuery exportSQL tr rc =
     (case rc of (r, c) \<Rightarrow>
        (case init_err tr of
           Some e \<Rightarrow> Some (Some e, r, c)
         | None \<Rightarrow>
             (case race ''Timed out doing BulkQuery'' (Timeout c) tr of
                None \<Rightarrow> None
              | Some (now, err) \<Rightarrow>
                  (let r' = r\<lparr>Data := Data r @ data_chunks tr,
                              BytesRead :=
                                (case data_at tr of
                                   None \<Rightarrow> BytesRead r
                                 | Some d \<Rightarrow> if d \<le> now then data_bytes tr else BytesRead r)\<rparr>
                   in (case err of
                         None \<Rightarrow> Some (None, r', c)
                       | Some e \<Rightarrow>
                           Some (Some e, r',
                             c_error [''Unable to bulk export data:'', exportSQL, e] c))))))"

text \<open>The error one call of \<^verbatim>\<open>streamQuery\<close> returns; \<open>None\<close> when it never returns.\<close>

definition streamQuery_err :: "32 word \<Rightarrow> transfer \<Rightarrow> error option option" where
  "streamQuery_err t tr =
     (case init_err tr of
        Some e \<Rightarrow> Some (Some e)
      | None \<Rightarrow> map_option snd (race ''Timed out doing BulkQuery'' t tr))"

text \<open>The loop \<^verbatim>\<open>for i := 0; i <= 2; i++\<close> of the background task of \<^verbatim>\<open>StreamQuery\<close>.\<close>

function StreamQuery_loop ::
  "export_world \<Rightarrow> string \<Rightarrow> nat \<Rightarrow> Rows \<times> bulk_conn \<Rightarrow> (Rows \<times> bulk_conn) option" where
  "StreamQuery_loop w exportSQL i rc =
     (if i \<le> 2 then
        (case streamQuery exportSQL (w exportSQL (started (snd rc))) rc of
           None \<Rightarrow> None
         | Some (err, r, c) \<Rightarrow>
             (if retryableError err then
                StreamQuery_loop w exportSQL (i + 1)
                  (r\<lparr>Error := None\<rparr>, c_error [''Retrying...''] (c\<lparr>started := Suc (started c)\<rparr>))
              else Some (r\<lparr>Error := err\<rparr>, c\<lparr>started := Suc (started c)\<rparr>)))
      else Some rc)"
  by pat_completeness auto
termination
  by (relation "measure (\<lambda>(w, s, i, rc). 3 - i)") auto

declare StreamQuery_loop.simps [simp del]

text \<open>
  \<^verbatim>\<open>StreamQuery\<close> returns the live \<^verbatim>\<open>Rows\<close> at once; the value here is the object once
  the background task has finished (its deferred \<^verbatim>\<open>close(r.Data)\<close> included), and
  \<open>None\<close> when that task never finishes.
\<close>

definition StreamQuery :: "export_world \<Rightarrow> string \<Rightarrow> bulk_conn \<Rightarrow> (Rows \<times> bulk_conn) option" where
  "StreamQuery w exportSQL c =
     (case StreamQuery_loop w exportSQL 0
             (\<lparr>BytesRead = 0, Data = [], Data_closed = False, Error = None\<rparr>, c) of
        None \<Rightarrow> None
      | Some (r, c') \<Rightarrow> Some (r\<lparr>Data_closed := True\<rparr>, c'))"

definition Buffer_Write :: "chunk \<Rightarrow> chunk \<Rightarrow> chunk" where
  "Buffer_Write buf b = buf @ b"

text \<open>The result is the returned error and the contents of the buffer afterwards.\<close>

definition BulkQuery ::
  "export_world \<Rightarrow> string \<Rightarrow> chunk option \<Rightarrow> bulk_conn \<Rightarrow> (error option \<times> chunk) outcome \<times> bulk_conn"
where
  "BulkQuery w sql data c =
     (case data of
        None \<Rightarrow> (log_Fatal ''You must pass in a bytes.Buffer pointer to BulkQuery'', c)
      | Some buf \<Rightarrow>
          (case StreamQuery w sql c of
             None \<Rightarrow> (Blocked, c)
           | Some (rows, c') \<Rightarrow>
               (case Error rows of
                  Some e \<Rightarrow>
                    (Returned (Some (''Unable to BulkQuery: '' @ e), foldl Buffer_Write buf (Data rows)), c')
                | None \<Rightarrow> (Returned (None, foldl Buffer_Write buf (Data rows)), c'))))"

text \<open>
  The buffer variants in the spec's words: the import buffer is "a single-chunk instance
  of the stream variant", a closed channel holding the one chunk; the export buffer
  receives the chunks of the stream in order, and an error is returned exactly when the
  \<^verbatim>\<open>Rows\<close> object carries one.
\<close>

definition single_chunk :: "chunk \<Rightarrow> chunk chan" where
  "single_chunk bytes = \<lparr>capacity = 1, queue = [bytes], closed = True\<rparr>"

definition BulkQuery_spec ::
  "export_world \<Rightarrow> string \<Rightarrow> chunk \<Rightarrow> bulk_conn \<Rightarrow> (error option \<times> chunk) outcome \<times> bulk_conn"
where
  "BulkQuery_spec w sql buf c =
     (case StreamQuery w sql c of
        None \<Rightarrow> (Blocked, c)
      | Some (rows, c') \<Rightarrow>
          (Returned (map_option ((@) ''Unable to BulkQuery: '') (Error rows),
                     buf @ concat (Data rows)), c'))"

section \<open>The session: requests, responses and the socket\<close>

text \<open>
  A decoded JSON value (\<^verbatim>\<open>interface{}\<close>). JSON numbers decode to \<^verbatim>\<open>float64\<close>; the
  handles, counts and offsets this code reads are whole numbers far below \<open>2^53\<close>, where
  \<^verbatim>\<open>float64\<close> arithmetic is exact, so a number is an \<open>int\<close>.
  A \<^verbatim>\<open>map[string]interface{}\<close> is an association list; reading a missing key, or any
  key of the nil map, gives \<^verbatim>\<open>nil\<close>.
\<close>

datatype json = JNull | JBool bool | JNum int | JStr string | JArr "json list"
  | JObj "(string \<times> json) list"

type_synonym jmap = "(string \<times> json) list"

definition jget :: "jmap \<Rightarrow> string \<Rightarrow> json" where
  "jget m k = (case map_of m k of None \<Rightarrow> JNull | Some v \<Rightarrow> v)"

definition jput :: "jmap \<Rightarrow> string \<Rightarrow> json \<Rightarrow> jmap" where
  "jput m k v = (k, v) # filter (\<lambda>p. fst p \<noteq> k) m"

text \<open>
  The request structs. \<open>executeStmtJSON\<close> carries the current-schema attribute and the
  SQL text; \<open>execPrepStmtJSON\<close> the statement handle, column and row counts, column
  descriptors and column-major data; \<open>fetchJSON\<close> the result-set handle, start position
  and byte budget. The last two constructors are the requests of \<^verbatim>\<open>getPrepStmt\<close> and
  \<^verbatim>\<open>closePrepStmt\<close>, which are not among the sources.
\<close>

datatype request =
    executeStmtJSON string string
  | execPrepStmtJSON int nat nat "json list" "json list list"
  | fetchJSON int int int
  | closeResultSetJSON "int list"
  | createPrepStmtJSON string string
  | closePrepStmtJSON int

text \<open>
  What the socket does with one request: the write fails, the read fails, or a response
  arrives. Responses are taken to be well-formed envelopes: a status other than
  \<^verbatim>\<open>ok\<close> with its exception text, or \<^verbatim>\<open>ok\<close> with \<^verbatim>\<open>responseData\<close>, with
  \<^verbatim>\<open>attributes\<close> only, or with neither.
\<close>

datatype reply =
    WriteFailed error
  | ReadFailed error
  | ServerError string
  | ResponseData jmap
  | Attributes jmap
  | Acknowledged

type_synonym 'w socket = "request \<Rightarrow> 'w \<Rightarrow> reply \<times> 'w"

record prepStmt =
  sth :: int
  columnDefs :: "json list"

text \<open>
  The session. \<^verbatim>\<open>*prepStmt\<close> pointers are addresses into \<open>stmts\<close>, of which
  \<open>allocated\<close> are in use; \<open>sent\<close> is the
  sequence of requests written to the socket, \<open>sock\<close> the state of the other end.
  Calls to the logger leave the session unchanged and are left out.
\<close>

record 'w conn =
  CachePrepStmts :: bool
  prepStmtCache :: "string \<rightharpoonup> nat"
  stmts :: "nat \<rightharpoonup> prepStmt"
  allocated :: nat
  sent :: "request list"
  sock :: 'w

text \<open>
  \<^verbatim>\<open>send\<close>, that is \<^verbatim>\<open>asyncSend\<close> followed by the wait it returns. The result is the
  pair \<^verbatim>\<open>(result, err)\<close>; the nil map is the empty one. The error \<^verbatim>\<open>c.error\<close> returns
  for a failed write is taken to be its formatted message.
\<close>

definition send :: "'w socket \<Rightarrow> request \<Rightarrow> 'w conn \<Rightarrow> (jmap \<times> error option) \<times> 'w conn" where
  "send ws request c =
     (case ws request (sock c) of
        (WriteFailed e, s) \<Rightarrow>
          (([], Some (''WebSocket API Error sending: '' @ e)), c\<lparr>sock := s\<rparr>)
      | (ReadFailed e, s) \<Rightarrow> (([], Some e), c\<lparr>sent := sent c @ [request], sock := s\<rparr>)
      | (ServerError text, s) \<Rightarrow> (([], Some text), c\<lparr>sent := sent c @ [request], sock := s\<rparr>)
      | (ResponseData respData, s) \<Rightarrow>
          ((respData, None), c\<lparr>sent := sent c @ [request], sock := s\<rparr>)
      | (Attributes attr, s) \<Rightarrow> ((attr, None), c\<lparr>sent := sent c @ [request], sock := s\<rparr>)
      | (Acknowledged, s) \<Rightarrow> (([], None), c\<lparr>sent := sent c @ [request], sock := s\<rparr>))"

text \<open>
  The helpers of \<^verbatim>\<open>Execute\<close> that are not among the sources, taken as parameters, with
  the socket: \<^verbatim>\<open>getPrepStmt(schema, sql)\<close> returns a pointer or an error,
  \<^verbatim>\<open>closePrepStmt(sth)\<close> returns nothing.
\<close>

record 'w deps =
  ws :: "'w socket"
  getPrepStmt :: "string \<Rightarrow> string \<Rightarrow> 'w conn \<Rightarrow> (error + nat) \<times> 'w conn"
  closePrepStmt :: "int \<Rightarrow> 'w conn \<Rightarrow> 'w conn"

text \<open>
  Modelled from the spec: \<^verbatim>\<open>Transpose\<close> (not among the sources). "Given N bindings each
  an ordered sequence of M values, produce M ordered sequences of N values (one per
  column); fails if bindings are not uniformly shaped."
\<close>

definition Transpose :: "'a list list \<Rightarrow> 'a list list outcome" where
  "Transpose m =
     (case m of
        [] \<Rightarrow> Returned []
      | r # rs \<Rightarrow>
          if list_all (\<lambda>x. length x = length r) rs
          then Returned (map (\<lambda>j. map (\<lambda>row. row ! j) m) [0..<length r])
          else Panicked ''index out of range'')"

section \<open>Statement engine\<close>

text \<open>The optional arguments of \<^verbatim>\<open>Execute\<close>, well-typed; a nil slice is the empty list.\<close>

record exec_args =
  binds :: "json list list"
  schema :: string
  dataTypes :: "json list option"
  isColumnar :: bool

text \<open>
  \<^verbatim>\<open>for i := range dataTypes { ps.columnDefs[i].(map[string]interface{})["dataType"] = dataTypes[i] }\<close>
\<close>

fun overlay :: "json list \<Rightarrow> nat \<Rightarrow> json list \<Rightarrow> json list outcome" where
  "overlay [] i cols = Returned cols"
| "overlay (dt # dts) i cols =
     (if i < length cols then
        (case cols ! i of
           JObj m \<Rightarrow> overlay dts (Suc i) (cols[i := JObj (jput m ''dataType'' dt)])
         | _ \<Rightarrow> Panicked ''interface conversion'')
      else Panicked ''index out of range'')"

text \<open>
  The end of \<^verbatim>\<open>Execute\<close>: \<^verbatim>\<open>if !c.Conf.CachePrepStmts { c.closePrepStmt(ps.sth) }\<close> and
  \<^verbatim>\<open>return res, err\<close>, with the function-level \<^verbatim>\<open>ps\<close> and \<^verbatim>\<open>err\<close>.
\<close>

definition Execute_return ::
  "'w deps \<Rightarrow> prepStmt \<Rightarrow> jmap \<Rightarrow> error option \<Rightarrow> 'w conn \<Rightarrow> (jmap \<times> error option) outcome \<times> 'w conn"
where
  "Execute_return d ps res err c =
     (Returned (res, err), if CachePrepStmts c then c else closePrepStmt d (sth ps) c)"

text \<open>
  The recovery block of \<^verbatim>\<open>Execute\<close>. Inside it \<^verbatim>\<open>ps, err := c.getPrepStmt(schema, sql)\<close>
  declares a new \<^verbatim>\<open>ps\<close> and a new \<^verbatim>\<open>err\<close> for the block, so
  \<^verbatim>\<open>res, err = c.send(execReq)\<close> assigns the function's \<^verbatim>\<open>res\<close> and the block's
  \<^verbatim>\<open>err\<close>: after the block the function's \<^verbatim>\<open>ps\<close> and \<^verbatim>\<open>err\<close> are what they were.
  \<open>execReq\<close> is given as the function from the handle to the request.
\<close>

definition Execute_recover ::
  "'w deps \<Rightarrow> string \<Rightarrow> string \<Rightarrow> (int \<Rightarrow> request) \<Rightarrow> prepStmt \<Rightarrow> error option \<Rightarrow> 'w conn
     \<Rightarrow> (jmap \<times> error option) outcome \<times> 'w conn"
where
  "Execute_recover d schema' sql execReq ps err c =
     (case getPrepStmt d schema' sql (c\<lparr>prepStmtCache := (prepStmtCache c)(sql := None)\<rparr>) of
        (Inl err', c1) \<Rightarrow> (Returned ([], Some err'), c1)
      | (Inr p', c1) \<Rightarrow>
          (case stmts c1 p' of
             None \<Rightarrow> (Panicked ''nil pointer dereference'', c1)
           | Some ps' \<Rightarrow>
               (case send (ws d) (execReq (sth ps')) c1 of
                  ((res, err'), c2) \<Rightarrow> Execute_return d ps res err c2)))"

definition Execute ::
  "'w deps \<Rightarrow> string \<Rightarrow> exec_args \<Rightarrow> 'w conn \<Rightarrow> (jmap \<times> error option) outcome \<times> 'w conn"
where
  "Execute d sql args c =
     (if (case binds args of [] \<Rightarrow> True | b # _ \<Rightarrow> b = []) then
        (case send (ws d) (executeStmtJSON (schema args) sql) c of (r, c') \<Rightarrow> (Returned r, c'))
      else
        (case getPrepStmt d (schema args) sql c of
           (Inl err, c1) \<Rightarrow> (Returned ([], Some err), c1)
         | (Inr p, c1) \<Rightarrow>
             (case stmts c1 p of
                None \<Rightarrow> (Panicked ''nil pointer dereference'', c1)
              | Some ps0 \<Rightarrow>
                  (case (case dataTypes args of
                           None \<Rightarrow> Returned (columnDefs ps0)
                         | Some dts \<Rightarrow> overlay dts 0 (columnDefs ps0)) of
                     Returned cols \<Rightarrow>
                       (case (if isColumnar args then Returned (binds args)
                              else Transpose (binds args)) of
                          Returned [] \<Rightarrow> (Panicked ''index out of range'', c1)
                        | Returned (col # cols') \<Rightarrow>
                            (let ps = ps0\<lparr>columnDefs := cols\<rparr>;
                                 c2 = c1\<lparr>stmts := (stmts c1)(p \<mapsto> ps)\<rparr>;
                                 execReq = (\<lambda>h. execPrepStmtJSON h (length (col # cols'))
                                                (length col) cols (col # cols'))
                             in (case send (ws d) (execReq (sth ps)) c2 of
                                   ((res, None), c3) \<Rightarrow> Execute_return d ps res None c3
                                 | ((res, Some e), c3) \<Rightarrow>
                                     if handle_not_found e
                                     then Execute_recover d (schema args) sql execReq ps (Some e) c3
                                     else Execute_return d ps res (Some e) c3))
                        | Fatal m \<Rightarrow> (Fatal m, c1)
                        | Panicked m \<Rightarrow> (Panicked m, c1)
                        | Blocked \<Rightarrow> (Blocked, c1))
                   | Fatal m \<Rightarrow> (Fatal m, c1)
                   | Panicked m \<Rightarrow> (Panicked m, c1)
                   | Blocked \<Rightarrow> (Blocked, c1)))))"

section \<open>Result streamer\<close>

text \<open>
  The row channel of \<^verbatim>\<open>FetchChan\<close>: the rows sent on it so far, in order, and whether it
  has been closed. The consumer is taken to keep receiving, so a send never waits for ever.
\<close>

record rowchan =
  rows :: "json list list"
  rows_closed :: bool

fun columns_of :: "json list \<Rightarrow> json list list option" where
  "columns_of [] = Some []"
| "columns_of (JArr col # rest) = map_option ((#) col) (columns_of rest)"
| "columns_of (_ # rest) = None"

text \<open>
  Modelled from the spec: \<^verbatim>\<open>transposeToChan\<close> (not among the sources). "Rows are pushed
  onto a bounded channel in row order", "in row-major order to the caller regardless of
  the wire's chunked layout": the column-major chunk is transposed and its rows are sent.
\<close>

definition transposeToChan :: "rowchan \<Rightarrow> json list \<Rightarrow> rowchan outcome" where
  "transposeToChan ch matrix =
     (case columns_of matrix of
        None \<Rightarrow> Panicked ''interface conversion''
      | Some cols \<Rightarrow>
          (case Transpose cols of
             Returned rs \<Rightarrow> Returned (ch\<lparr>rows := rows ch @ rs\<rparr>)
           | Fatal m \<Rightarrow> Fatal m
           | Panicked m \<Rightarrow> Panicked m
           | Blocked \<Rightarrow> Blocked))"

text \<open>
  One pass through the body of the loop
  \<^verbatim>\<open>for i := float64(0); i < rs["numRows"].(float64); { ... }\<close> of the producer task:
  \<open>Inr\<close> is the offset, channel and session for the next test of the condition,
  \<open>Inl\<close> a pass that ends the task.
\<close>

definition fetch_page ::
  "'w socket \<Rightarrow> int \<Rightarrow> int \<Rightarrow> rowchan \<Rightarrow> 'w conn
     \<Rightarrow> (unit outcome \<times> rowchan \<times> 'w conn) + (int \<times> rowchan \<times> 'w conn)"
where
  "fetch_page sk rsh i ch c =
     (case send sk (fetchJSON rsh i (64 * 1024 * 1024)) c of
        ((chunk, Some err), c') \<Rightarrow> Inl (Panicked err, ch, c')
      | ((chunk, None), c') \<Rightarrow>
          (case jget chunk ''numRows'' of
             JNum n \<Rightarrow>
               (case jget chunk ''data'' of
                  JArr matrix \<Rightarrow>
                    (case transposeToChan ch matrix of
                       Returned ch' \<Rightarrow> Inr (i + n, ch', c')
                     | Fatal m \<Rightarrow> Inl (Fatal m, ch, c')
                     | Panicked m \<Rightarrow> Inl (Panicked m, ch, c')
                     | Blocked \<Rightarrow> Inl (Blocked, ch, c'))
                | _ \<Rightarrow> Inl (Panicked ''interface conversion'', ch, c'))
           | _ \<Rightarrow> Inl (Panicked ''interface conversion'', ch, c')))"

text \<open>
  The loop. The result is how it ends, with the channel and the session at that point;
  \<open>None\<close> is a loop that never ends.
\<close>

partial_function (option) fetch_pages ::
  "'w socket \<Rightarrow> int \<Rightarrow> int \<Rightarrow> int \<Rightarrow> rowchan \<Rightarrow> 'w conn \<Rightarrow> (unit outcome \<times> rowchan \<times> 'w conn) option"
where
  "fetch_pages sk rsh numRows i ch c =
     (if i < numRows then
        (case fetch_page sk rsh i ch c of
           Inl ended \<Rightarrow> Some ended
         | Inr (i', ch', c') \<Rightarrow> fetch_pages sk rsh numRows i' ch' c')
      else Some (Returned (), ch, c))"

text \<open>
  The state of the loop after \<open>n\<close> passes that all went on to the next test of the
  condition; \<open>None\<close> when the loop ends earlier.
\<close>

fun passes ::
  "nat \<Rightarrow> 'w socket \<Rightarrow> int \<Rightarrow> int \<Rightarrow> int \<times> rowchan \<times> 'w conn \<Rightarrow> (int \<times> rowchan \<times> 'w conn) option"
where
  "passes 0 sk rsh numRows st = Some st"
| "passes (Suc n) sk rsh numRows (i, ch, c) =
     (if i < numRows then
        (case fetch_page sk rsh i ch c of
           Inl ended \<Rightarrow> None
         | Inr st' \<Rightarrow> passes n sk rsh numRows st')
      else None)"

text \<open>The body of the producer task (the \<^verbatim>\<open>go func()\<close> of \<^verbatim>\<open>FetchChan\<close>).\<close>

definition producer ::
  "'w socket \<Rightarrow> jmap \<Rightarrow> rowchan \<Rightarrow> 'w conn \<Rightarrow> (unit outcome \<times> rowchan \<times> 'w conn) option" where
  "producer sk rs ch c =
     (case jget rs ''numRows'' of
        JNum numRows \<Rightarrow>
          (if numRows = 0 then Some (Returned (), ch\<lparr>rows_closed := True\<rparr>, c)
           else
             (case jget rs ''resultSetHandle'' of
                JNum rsh \<Rightarrow>
                  (case fetch_pages sk rsh numRows 0 ch c of
                     None \<Rightarrow> None
                   | Some (Returned u, ch', c') \<Rightarrow>
                       (case send sk (closeResultSetJSON [rsh]) c' of
                          (r, c'') \<Rightarrow> Some (Returned (), ch'\<lparr>rows_closed := True\<rparr>, c''))
                   | Some (out, ch', c') \<Rightarrow> Some (out, ch', c'))
              | _ \<Rightarrow>
                  (case jget rs ''data'' of
                     JArr matrix \<Rightarrow>
                       (case transposeToChan ch matrix of
                          Returned ch' \<Rightarrow> Some (Returned (), ch'\<lparr>rows_closed := True\<rparr>, c)
                        | Fatal m \<Rightarrow> Some (Fatal m, ch, c)
                        | Panicked m \<Rightarrow> Some (Panicked m, ch, c)
                        | Blocked \<Rightarrow> Some (Blocked, ch, c))
                   | _ \<Rightarrow> Some (Panicked ''interface conversion'', ch, c))))
      | _ \<Rightarrow> Some (Panicked ''interface conversion'', ch, c))"

fun show_nat :: "nat \<Rightarrow> string" where
  "show_nat n =
     (if n < 10 then [char_of (48 + n)] else show_nat (n div 10) @ [char_of (48 + n mod 10)])"

declare show_nat.simps [simp del]

definition show_num :: "int \<Rightarrow> string" where
  "show_num n = (if n < 0 then ''-'' @ show_nat (nat (- n)) else show_nat (nat n))"

text \<open>
  What \<^verbatim>\<open>FetchChan\<close> gives its caller: an error, or the channel, which is then fed by the
  producer task; for the channel the value is how that task ends and the channel at that
  point.
\<close>

datatype fetched = Failed error | Streaming "unit outcome" rowchan

text \<open>
  \<^verbatim>\<open>FetchChan(sql, binds, schema)\<close>. \<open>None\<close> is a producer task that never ends.
\<close>

definition FetchChan ::
  "'w deps \<Rightarrow> string \<Rightarrow> json list \<Rightarrow> string \<Rightarrow> 'w conn \<Rightarrow> (fetched outcome \<times> 'w conn) option" where
  "FetchChan d sql binds' schema' c =
     (case Execute d sql
             \<lparr>binds = [binds'], schema = schema', dataTypes = None, isColumnar = False\<rparr> c of
        (Returned (response, Some err), c1) \<Rightarrow> Some (Returned (Failed err), c1)
      | (Returned (response, None), c1) \<Rightarrow>
          (case jget response ''numResults'' of
             JNum numResults \<Rightarrow>
               (if numResults \<noteq> 1
                then Some (Returned (Failed (''Unexpected numResults: '' @ show_num numResults)), c1)
                else
                  (case jget response ''results'' of
                     JArr (JObj results # others) \<Rightarrow>
                       (case jget results ''resultSet'' of
                          JNull \<Rightarrow> Some (Returned (Failed ''Missing websocket API resultset''), c1)
                        | JObj rs \<Rightarrow>
                            (case producer (ws d) rs \<lparr>rows = [], rows_closed = False\<rparr> c1 of
                               None \<Rightarrow> None
                             | Some (out, ch, c2) \<Rightarrow> Some (Returned (Streaming out ch), c2))
                        | _ \<Rightarrow> Some (Panicked ''interface conversion'', c1))
                   | JArr [] \<Rightarrow> Some (Panicked ''index out of range'', c1)
                   | _ \<Rightarrow> Some (Panicked ''interface conversion'', c1)))
           | _ \<Rightarrow> Some (Panicked ''interface conversion'', c1))
      | (Fatal m, c1) \<Rightarrow> Some (Fatal m, c1)
      | (Panicked m, c1) \<Rightarrow> Some (Panicked m, c1)
      | (Blocked, c1) \<Rightarrow> Some (Blocked, c1))"

section \<open>A paging server and sample data\<close>

text \<open>
  The other end of the socket for a result set \<open>all\<close> of rows of \<open>M\<close> columns, served
  in pages of at most \<open>C\<close> rows (what the byte budget allows): a fetch at \<open>start\<close>
  answers with the next page in the wire's column-major layout, unless \<open>fail\<close> makes
  that fetch (counted from the first one served) fail; an execute, prepared or not,
  answers with the result-set header; a prepare answers with statement handle 1 and one
  column descriptor; everything else is acknowledged.
\<close>

definition column_major :: "json list list \<Rightarrow> nat \<Rightarrow> json list" where
  "column_major page M = map (\<lambda>j. JArr (map (\<lambda>row. row ! j) page)) [0..<M]"

definition result_set_response :: "jmap \<Rightarrow> jmap" where
  "result_set_response rs =
     [(''numResults'', JNum 1),
      (''results'', JArr [JObj [(''resultType'', JStr ''resultSet''), (''resultSet'', JObj rs)]])]"

definition page_server ::
  "json list list \<Rightarrow> nat \<Rightarrow> nat \<Rightarrow> int \<Rightarrow> (nat \<Rightarrow> error option) \<Rightarrow> nat socket" where
  "page_server all M C h fail request served =
     (case request of
        fetchJSON rsh start numBytes \<Rightarrow>
          (case fail served of
             Some e \<Rightarrow> (ServerError e, Suc served)
           | None \<Rightarrow>
               (ResponseData
                  [(''numRows'', JNum (int (length (take C (drop (nat start) all))))),
                   (''data'', JArr (column_major (take C (drop (nat start) all)) M))],
                Suc served))
      | executeStmtJSON sch sql \<Rightarrow>
          (ResponseData
             (result_set_response
                [(''numRows'', JNum (int (length all))), (''resultSetHandle'', JNum h)]),
           served)
      | execPrepStmtJSON sth' numCols numRows cols data \<Rightarrow>
          (ResponseData
             (result_set_response
                [(''numRows'', JNum (int (length all))), (''resultSetHandle'', JNum h)]),
           served)
      | createPrepStmtJSON sch sql \<Rightarrow>
          (ResponseData
             [(''statementHandle'', JNum 1),
              (''columns'', JArr [JObj [(''dataType'', JObj [(''type'', JStr ''DECIMAL'')])]])],
           served)
      | _ \<Rightarrow> (Acknowledged, served))"

text \<open>
  The start positions of successive pages: the first is \<open>i\<close>, each later one is the
  one before plus the number of rows of the page before.
\<close>

fun starts :: "nat \<Rightarrow> 'a list list \<Rightarrow> nat list" where
  "starts i [] = []"
| "starts i (p # ps) = i # starts (i + length p) ps"

text \<open>A socket that answers from a script, one reply for each request, then fails.\<close>

fun scripted :: "reply list socket" where
  "scripted request [] = (ReadFailed ''EOF'', [])"
| "scripted request (r # script) = (r, script)"

text \<open>
  Modelled from the spec: \<^verbatim>\<open>getPrepStmt\<close> (not among the sources). "Obtain (or create)
  the cached prepared statement for sql under schema"; a statement is "created on first
  bind-parameterized execution of a given SQL text" and kept in the cache when caching is
  enabled.
\<close>

definition getPrepStmt_model ::
  "'w socket \<Rightarrow> string \<Rightarrow> string \<Rightarrow> 'w conn \<Rightarrow> (error + nat) \<times> 'w conn" where
  "getPrepStmt_model sk schema' sql c =
     (case prepStmtCache c sql of
        Some p \<Rightarrow> (Inr p, c)
      | None \<Rightarrow>
          (case send sk (createPrepStmtJSON schema' sql) c of
             ((res, Some err), c1) \<Rightarrow> (Inl err, c1)
           | ((res, None), c1) \<Rightarrow>
               (case (jget res ''statementHandle'', jget res ''columns'') of
                  (JNum h, JArr cols) \<Rightarrow>
                    (Inr (allocated c1),
                     c1\<lparr>stmts := (stmts c1)(allocated c1 \<mapsto> \<lparr>sth = h, columnDefs = cols\<rparr>),
                        allocated := Suc (allocated c1),
                        prepStmtCache :=
                          (if CachePrepStmts c1 then (prepStmtCache c1)(sql \<mapsto> allocated c1)
                           else prepStmtCache c1)\<rparr>)
                | _ \<Rightarrow> (Inl ''Unexpected prepared statement response'', c1))))"

text \<open>
  Modelled from the spec: \<^verbatim>\<open>closePrepStmt\<close> (not among the sources): the statement is
  closed on the server.
\<close>

definition closePrepStmt_model :: "'w socket \<Rightarrow> int \<Rightarrow> 'w conn \<Rightarrow> 'w conn" where
  "closePrepStmt_model sk h c = snd (send sk (closePrepStmtJSON h) c)"

definition model_deps :: "'w socket \<Rightarrow> 'w deps" where
  "model_deps sk =
     \<lparr>ws = sk, getPrepStmt = getPrepStmt_model sk, closePrepStmt = closePrepStmt_model sk\<rparr>"

subsection \<open>Sample transfers\<close>

definition refused_msg :: error where
  "refused_msg = ''failed after 0 bytes: Connection refused''"

definition sample_sql :: string where
  "sample_sql = ''IMPORT INTO T FROM CSV AT %s''"

definition export_sql :: string where
  "export_sql = ''EXPORT T INTO CSV AT %s''"

definition c0 :: bulk_conn where
  "c0 = \<lparr>Timeout = 10, SuppressError = False, errlog = [], started = 0\<rparr>"

text \<open>The server cannot reach the endpoint: the command fails, nothing is written.\<close>

definition tr_refused :: transfer where
  "tr_refused =
     \<lparr>init_err = None, data_at = None, data_err = None, data_bytes = 0, data_chunks = [],
      resp_at = Some 1000, resp_err = Some refused_msg,
      pollorder = [DataErr, RespErr, TimeAfter]\<rparr>"

text \<open>Ten bytes are written, then the command reports the same signature.\<close>

definition tr_partial :: transfer where
  "tr_partial =
     \<lparr>init_err = None, data_at = Some 500, data_err = None, data_bytes = 10, data_chunks = [],
      resp_at = Some 900, resp_err = Some refused_msg,
      pollorder = [DataErr, RespErr, TimeAfter]\<rparr>"

text \<open>The command fails with another error.\<close>

definition tr_syntax :: transfer where
  "tr_syntax =
     \<lparr>init_err = None, data_at = None, data_err = None, data_bytes = 0, data_chunks = [],
      resp_at = Some 1000, resp_err = Some ''syntax error'',
      pollorder = [DataErr, RespErr, TimeAfter]\<rparr>"

text \<open>
  The transfer ends after 2000 ns and the command after 3000 ns, both without error.
\<close>

definition tr_ok :: transfer where
  "tr_ok =
     \<lparr>init_err = None, data_at = Some 2000, data_err = None, data_bytes = 3,
      data_chunks = [[1, 2], [3]],
      resp_at = Some 3000, resp_err = None,
      pollorder = [DataErr, RespErr, TimeAfter]\<rparr>"

subsection \<open>A sample session with a stale statement handle\<close>

definition insert_sql :: string where
  "insert_sql = ''INSERT INTO T VALUES (?)''"

definition sample_col :: json where
  "sample_col = JObj [(''name'', JStr ''A''), (''dataType'', JObj [(''type'', JStr ''DECIMAL'')])]"

definition row_count_response :: jmap where
  "row_count_response =
     [(''numResults'', JNum 1),
      (''results'', JArr [JObj [(''resultType'', JStr ''rowCount''), (''rowCount'', JNum 1)]])]"

text \<open>
  The cache holds handle 7 for the statement; the server has forgotten it, prepares the
  statement again as handle 8, and then executes it.
\<close>

definition stale_conn :: "reply list conn" where
  "stale_conn =
     \<lparr>CachePrepStmts = True,
      prepStmtCache = [insert_sql \<mapsto> 0],
      stmts = [0 \<mapsto> \<lparr>sth = 7, columnDefs = [sample_col]\<rparr>],
      allocated = 1,
      sent = [],
      sock = [ServerError ''Statement handle not found'',
              ResponseData [(''statementHandle'', JNum 8), (''columns'', JArr [sample_col])],
              ResponseData row_count_response]\<rparr>"

definition one_bind :: exec_args where
  "one_bind = \<lparr>binds = [[JNum 1]], schema = [], dataTypes = None, isColumnar = False\<rparr>"

subsection \<open>A sample result set\<close>

definition five_rows :: "json list list" where
  "five_rows = [[JNum 1, JStr ''a''], [JNum 2, JStr ''b''], [JNum 3, JStr ''c''],
                [JNum 4, JStr ''d''], [JNum 5, JStr ''e'']]"

definition fetch_sql :: string where
  "fetch_sql = ''SELECT * FROM T''"

definition bound_sql :: string where
  "bound_sql = ''SELECT * FROM T WHERE A > ?''"

definition fresh_conn :: "nat conn" where
  "fresh_conn =
     \<lparr>CachePrepStmts = True, prepStmtCache = Map.empty, stmts = Map.empty, allocated = 0,
      sent = [], sock = 0\<rparr>"

definition never :: "nat \<Rightarrow> error option" where
  "never k = None"

definition second_fails :: "nat \<Rightarrow> error option" where
  "second_fails k = (if k = 1 then Some ''connection lost'' else None)"

section \<open>Bulk import: the retry policy\<close>

lemma c_error_Timeout: "Timeout (c_error a c) = Timeout c"
  by (simp add: c_error_def)

lemma c_error_started: "started (c_error a c) = started c"
  by (simp add: c_error_def)

lemma c_error_errlog: "\<not> SuppressError c \<Longrightarrow> errlog (c_error a c) = errlog c @ [a]"
  by (simp add: c_error_def)

lemma c_error_Suppress: "SuppressError (c_error a c) = SuppressError c"
  by (simp add: c_error_def)

lemmas c_error_simps = c_error_Timeout c_error_started c_error_Suppress

subsection \<open>The samples evaluated\<close>

lemma retryable_match_append: "retryable_match m \<Longrightarrow> retryable_match (p @ m)"
  by (induction p) auto

lemma retryable_import_error:
  "retryableError (Some m) \<Longrightarrow> retryableError (Some (import_error sql m))"
  using retryable_match_append [of m "''Unable to bulk import data: '' @ sql @ [CHR 0x0A]"]
  by (simp add: retryableError_def import_error_def)

lemma retryable_refused: "retryableError (Some refused_msg)"
  by (simp add: retryableError_def refused_msg_def retryable_at_def)

lemma not_retryable_syntax:
  "\<not> retryableError (Some (import_error sample_sql ''syntax error''))"
  by (simp add: retryableError_def import_error_def sample_sql_def retryable_at_def)

lemma not_retryable_timed_out: "\<not> retryableError (Some ''Timed out doing BulkQuery'')"
  by (simp add: retryableError_def retryable_at_def)

lemma timeout_ns_10: "timeout_ns 10 = 10000000000"
  by (simp add: timeout_ns_def)

lemma timeout_ns_0: "timeout_ns 0 = 0"
  by (simp add: timeout_ns_def)

lemmas race_defs = race_def select_case_def ready_def arrival_def wake_def min_at_def

lemma race_refused: "race m 10 tr_refused = Some (1000, Some refused_msg)"
  by (simp add: race_defs tr_refused_def timeout_ns_10)

lemma race_partial: "race m 10 tr_partial = Some (900, Some refused_msg)"
  by (simp add: race_defs tr_partial_def timeout_ns_10)

lemma race_syntax: "race m 10 tr_syntax = Some (1000, Some ''syntax error'')"
  by (simp add: race_defs tr_syntax_def timeout_ns_10)

lemma race_ok: "race m 10 tr_ok = Some (3000, None)"
  by (simp add: race_defs tr_ok_def timeout_ns_10)

lemma race_ok_0: "race m 0 tr_ok = Some (0, Some m)"
  by (simp add: race_defs tr_ok_def timeout_ns_0)

lemma refused_fields:
  "init_err tr_refused = None" "data_at tr_refused = None" "data_chunks tr_refused = []"
  by (simp_all add: tr_refused_def)

lemma partial_fields:
  "init_err tr_partial = None" "data_at tr_partial = Some 500" "data_bytes tr_partial = 10"
  "data_chunks tr_partial = []"
  by (simp_all add: tr_partial_def)

lemma syntax_fields:
  "init_err tr_syntax = None" "data_at tr_syntax = None" "data_chunks tr_syntax = []"
  by (simp_all add: tr_syntax_def)

lemma ok_fields:
  "init_err tr_ok = None" "data_at tr_ok = Some 2000" "data_bytes tr_ok = 3"
  "data_chunks tr_ok = [[1, 2], [3]]"
  by (simp_all add: tr_ok_def)

lemma import_refused:
  "streamExecuteNoRetry 10 sql tr_refused = Some (0, Some (import_error sql refused_msg))"
  by (simp add: streamExecuteNoRetry_def race_refused bytes_seen_def refused_fields)

lemma import_partial:
  "streamExecuteNoRetry 10 sql tr_partial = Some (10, Some (import_error sql refused_msg))"
  by (simp add: streamExecuteNoRetry_def race_partial bytes_seen_def partial_fields)

lemma import_syntax:
  "streamExecuteNoRetry 10 sql tr_syntax = Some (0, Some (import_error sql ''syntax error''))"
  by (simp add: streamExecuteNoRetry_def race_syntax bytes_seen_def syntax_fields)

lemma import_ok: "streamExecuteNoRetry 10 sql tr_ok = Some (3, None)"
  by (simp add: streamExecuteNoRetry_def race_ok bytes_seen_def ok_fields)

lemma import_ok_0:
  "streamExecuteNoRetry 0 sql tr_ok
     = Some (0, Some (import_error sql ''Timed out doing StreamExecute''))"
  by (simp add: streamExecuteNoRetry_def race_ok_0 bytes_seen_def ok_fields)

lemma c0_fields: "Timeout c0 = 10" "started c0 = 0" "SuppressError c0 = False" "errlog c0 = []"
  by (simp_all add: c0_def)

text \<open>
  C1. Let the first attempt of \<open>StreamExecute\<close> fail with error \<open>e\<close> after \<open>b\<close>
  bytes. If \<open>e\<close> has the "failed after 0 bytes ... Connection refused" signature
  and \<open>b = 0\<close>, exactly one more attempt is made (two in all), and an error of that
  second attempt which has not the signature, or comes after bytes were written, is
  returned, as is its success. If \<open>e\<close> has the signature and \<open>b \<noteq> 0\<close>, no other attempt
  is made, \<open>e\<close> is returned and "Data already sent can't retry..." is reported. If
  \<open>e\<close> has not the signature, no other attempt is made and \<open>e\<close> is returned.
  \<open>BulkExecute\<close> and \<open>BulkInsert\<close> are \<open>StreamExecute\<close> on a channel of their own.
\<close>

theorem StreamExecute_retry_policy:
  assumes a1: "streamExecuteNoRetry (Timeout c) sql (w sql ch (started c)) = Some (b, Some e)"
  shows "(retryableError (Some e) \<and> b = 0 \<longrightarrow>
            started (snd (StreamExecute w sql (Some ch) c)) = started c + 2 \<and>
            (\<forall>b2 e2. streamExecuteNoRetry (Timeout c) sql (w sql ch (Suc (started c))) = Some (b2, Some e2)
                \<and> (b2 \<noteq> 0 \<or> \<not> retryableError (Some e2))
                \<longrightarrow> fst (StreamExecute w sql (Some ch) c) = Returned (Some e2)) \<and>
            (\<forall>b2. streamExecuteNoRetry (Timeout c) sql (w sql ch (Suc (started c))) = Some (b2, None)
                \<longrightarrow> fst (StreamExecute w sql (Some ch) c) = Returned None))
       \<and> (retryableError (Some e) \<and> b \<noteq> 0 \<longrightarrow>
            fst (StreamExecute w sql (Some ch) c) = Returned (Some e) \<and>
            started (snd (StreamExecute w sql (Some ch) c)) = started c + 1 \<and>
            (\<not> SuppressError c \<longrightarrow>
               [''Data already sent can't retry...'']
                 \<in> set (errlog (snd (StreamExecute w sql (Some ch) c)))))
       \<and> (\<not> retryableError (Some e) \<longrightarrow>
            fst (StreamExecute w sql (Some ch) c) = Returned (Some e) \<and>
            started (snd (StreamExecute w sql (Some ch) c)) = started c + 1)"
proof (intro conjI impI allI)
  assume r: "retryableError (Some e) \<and> b = 0"
  have step: "StreamExecute w sql (Some ch) c =
      StreamExecute_loop w sql ch [2] (c_error [''Retrying...''] (c\<lparr>started := Suc (started c)\<rparr>))"
    using a1 r by (simp add: StreamExecute_def)
  show "started (snd (StreamExecute w sql (Some ch) c)) = started c + 2"
    unfolding step
    by (simp add: c_error_simps split: option.split prod.split)
  {
    fix b2 e2
    assume a2: "streamExecuteNoRetry (Timeout c) sql (w sql ch (Suc (started c))) = Some (b2, Some e2)
        \<and> (b2 \<noteq> 0 \<or> \<not> retryableError (Some e2))"
    show "fst (StreamExecute w sql (Some ch) c) = Returned (Some e2)"
      unfolding step using a2 by (auto simp add: c_error_simps)
  }
  {
    fix b2
    assume a2: "streamExecuteNoRetry (Timeout c) sql (w sql ch (Suc (started c))) = Some (b2, None)"
    show "fst (StreamExecute w sql (Some ch) c) = Returned None"
      unfolding step using a2 by (simp add: c_error_simps)
  }
next
  assume r: "retryableError (Some e) \<and> b \<noteq> 0"
  then have res: "StreamExecute w sql (Some ch) c =
     (Returned (Some e), c_error [e] (c_error [''Data already sent can't retry...'']
                      (c\<lparr>started := Suc (started c)\<rparr>)))"
    using a1 by (simp add: StreamExecute_def)
  show "fst (StreamExecute w sql (Some ch) c) = Returned (Some e)" by (simp add: res)
  show "started (snd (StreamExecute w sql (Some ch) c)) = started c + 1"
    by (simp add: res c_error_simps)
  {
    assume "\<not> SuppressError c"
    then show "[''Data already sent can't retry...'']
                 \<in> set (errlog (snd (StreamExecute w sql (Some ch) c)))"
      by (simp add: res c_error_def)
  }
next
  assume r: "\<not> retryableError (Some e)"
  then have res: "StreamExecute w sql (Some ch) c =
     (Returned (Some e), c_error [e] (c\<lparr>started := Suc (started c)\<rparr>))"
    using a1 by (simp add: StreamExecute_def)
  show "fst (StreamExecute w sql (Some ch) c) = Returned (Some e)" by (simp add: res)
  show "started (snd (StreamExecute w sql (Some ch) c)) = started c + 1"
    by (simp add: res c_error_simps)
qed

theorem StreamExecute_retry_policy_witness:
  "started (snd (StreamExecute (\<lambda>s d k. tr_refused) sample_sql (Some (make_chan 1)) c0)) = 2
   \<and> fst (StreamExecute (\<lambda>s d k. if k = 0 then tr_refused else tr_syntax) sample_sql
            (Some (make_chan 1)) c0)
       = Returned (Some (import_error sample_sql ''syntax error''))
   \<and> fst (StreamExecute (\<lambda>s d k. if k = 0 then tr_refused else tr_ok) sample_sql
            (Some (make_chan 1)) c0) = Returned None
   \<and> StreamExecute (\<lambda>s d k. tr_partial) sample_sql (Some (make_chan 1)) c0
       = (Returned (Some (import_error sample_sql refused_msg)),
          c0\<lparr>errlog := [[''Data already sent can't retry...''],
                         [import_error sample_sql refused_msg]],
             started := 1\<rparr>)
   \<and> fst (StreamExecute (\<lambda>s d k. tr_syntax) sample_sql (Some (make_chan 1)) c0)
       = Returned (Some (import_error sample_sql ''syntax error''))"
proof -
  have r: "retryableError (Some (import_error sample_sql refused_msg))"
    by (rule retryable_import_error [OF retryable_refused])
  have a: "streamExecuteNoRetry (Timeout c0) sample_sql tr_refused
             = Some (0, Some (import_error sample_sql refused_msg))"
    by (simp add: c0_fields import_refused)
  have p: "streamExecuteNoRetry (Timeout c0) sample_sql tr_partial
             = Some (10, Some (import_error sample_sql refused_msg))"
    by (simp add: c0_fields import_partial)
  have s: "streamExecuteNoRetry (Timeout c0) sample_sql tr_syntax
             = Some (0, Some (import_error sample_sql ''syntax error''))"
    by (simp add: c0_fields import_syntax)
  have k: "streamExecuteNoRetry (Timeout c0) sample_sql tr_ok = Some (3, None)"
    by (simp add: c0_fields import_ok)
  have 1: "started (snd (StreamExecute (\<lambda>s d k. tr_refused) sample_sql (Some (make_chan 1)) c0)) = 2"
    using StreamExecute_retry_policy [of c0 sample_sql "\<lambda>s d k. tr_refused" "make_chan 1", OF a] r
    by (simp add: c0_fields)
  have 2: "fst (StreamExecute (\<lambda>s d k. if k = 0 then tr_refused else tr_syntax) sample_sql
            (Some (make_chan 1)) c0)
       = Returned (Some (import_error sample_sql ''syntax error''))"
    using StreamExecute_retry_policy
      [of c0 sample_sql "\<lambda>s d k. if k = 0 then tr_refused else tr_syntax" "make_chan 1"
          0 "import_error sample_sql refused_msg"] a s r not_retryable_syntax
    by (simp add: c0_fields)
  have 3: "fst (StreamExecute (\<lambda>s d k. if k = 0 then tr_refused else tr_ok) sample_sql
            (Some (make_chan 1)) c0) = Returned None"
    using StreamExecute_retry_policy
      [of c0 sample_sql "\<lambda>s d k. if k = 0 then tr_refused else tr_ok" "make_chan 1"
          0 "import_error sample_sql refused_msg"] a k r
    by (simp add: c0_fields)
  have 4: "StreamExecute (\<lambda>s d k. tr_partial) sample_sql (Some (make_chan 1)) c0
       = (Returned (Some (import_error sample_sql refused_msg)),
          c0\<lparr>errlog := [[''Data already sent can't retry...''],
                         [import_error sample_sql refused_msg]],
             started := 1\<rparr>)"
  proof -
    note t = StreamExecute_retry_policy [of c0 sample_sql "\<lambda>s d k. tr_partial" "make_chan 1", OF p]
    have "fst (StreamExecute (\<lambda>s d k. tr_partial) sample_sql (Some (make_chan 1)) c0)
            = Returned (Some (import_error sample_sql refused_msg))"
      using t r by simp
    moreover have "StreamExecute (\<lambda>s d k. tr_partial) sample_sql (Some (make_chan 1)) c0
         = (fst (StreamExecute (\<lambda>s d k. tr_partial) sample_sql (Some (make_chan 1)) c0),
            c0\<lparr>errlog := [[''Data already sent can't retry...''],
                         [import_error sample_sql refused_msg]],
             started := 1\<rparr>)"
      using p r by (simp add: StreamExecute_def c_error_def c0_def)
    ultimately show ?thesis by simp
  qed
  have 5: "fst (StreamExecute (\<lambda>s d k. tr_syntax) sample_sql (Some (make_chan 1)) c0)
       = Returned (Some (import_error sample_sql ''syntax error''))"
    using StreamExecute_retry_policy [of c0 sample_sql "\<lambda>s d k. tr_syntax" "make_chan 1", OF s]
      not_retryable_syntax
    by simp
  from 1 2 3 4 5 show ?thesis by blast
qed

section \<open>Bulk export: the retry policy\<close>

lemma streamQuery_result:
  "streamQuery sql tr (r, c) = Some (err, r1, c1) \<Longrightarrow>
     streamQuery_err (Timeout c) tr = Some err \<and> started c1 = started c \<and> Timeout c1 = Timeout c"
  by (auto simp: streamQuery_def streamQuery_err_def Let_def c_error_simps
           split: option.splits prod.splits)

lemma StreamQuery_loop_props:
  "StreamQuery_loop w sql i (r, c) = Some (r', c') \<Longrightarrow>
     started c \<le> started c' \<and> started c' \<le> started c + (3 - i) \<and> Timeout c' = Timeout c
     \<and> (i \<le> 2 \<longrightarrow> started c < started c')
     \<and> (\<forall>k. started c \<le> k \<and> Suc k < started c' \<longrightarrow>
            (\<exists>e. streamQuery_err (Timeout c) (w sql k) = Some e \<and> retryableError e))
     \<and> (\<forall>k e. started c \<le> k \<and> k < started c'
              \<and> streamQuery_err (Timeout c) (w sql k) = Some (Some e)
              \<and> \<not> retryableError (Some e) \<longrightarrow> started c' = Suc k \<and> Error r' = Some e)"
proof (induction w sql i "(r, c)" arbitrary: r c rule: StreamQuery_loop.induct)
  case (1 w sql i)
  show ?case
  proof (cases "i \<le> 2")
    case False
    with "1.prems" show ?thesis by (auto simp: StreamQuery_loop.simps [of w sql i])
  next
    case True
    with "1.prems" obtain err r1 c1 where
      sq: "streamQuery sql (w sql (started c)) (r, c) = Some (err, r1, c1)"
      by (auto simp: StreamQuery_loop.simps [of w sql i] split: option.splits)
    note sqr = streamQuery_result [OF sq]
    show ?thesis
    proof (cases "retryableError err")
      case False
      with True sq "1.prems" have res: "r' = r1\<lparr>Error := err\<rparr>" "c' = c1\<lparr>started := Suc (started c1)\<rparr>"
        by (auto simp: StreamQuery_loop.simps [of w sql i])
      have keq: "k = started c" if "started c \<le> k" "k < Suc (started c)" for k
        using that by simp
      from res sqr True show ?thesis by (auto dest: keq)
    next
      case retry: True
      let ?c2 = "c_error [''Retrying...''] (c1\<lparr>started := Suc (started c1)\<rparr>)"
      from retry True sq "1.prems" have rec:
        "StreamQuery_loop w sql (i + 1) (r1\<lparr>Error := None\<rparr>, ?c2) = Some (r', c')"
        by (simp add: StreamQuery_loop.simps [of w sql i])
      have ih: "started ?c2 \<le> started c' \<and> started c' \<le> started ?c2 + (3 - (i + 1)) \<and> Timeout c' = Timeout ?c2
     \<and> (i + 1 \<le> 2 \<longrightarrow> started ?c2 < started c')
     \<and> (\<forall>k. started ?c2 \<le> k \<and> Suc k < started c' \<longrightarrow>
            (\<exists>e. streamQuery_err (Timeout ?c2) (w sql k) = Some e \<and> retryableError e))
     \<and> (\<forall>k e. started ?c2 \<le> k \<and> k < started c'
              \<and> streamQuery_err (Timeout ?c2) (w sql k) = Some (Some e)
              \<and> \<not> retryableError (Some e) \<longrightarrow> started c' = Suc k \<and> Error r' = Some e)"
      proof -
        have sq': "streamQuery sql (w sql (started (snd (r, c)))) (r, c) = Some (err, r1, c1)"
          using sq by simp
        show ?thesis by (rule "1.hyps" [OF True sq' refl refl retry rec])
      qed
      have st: "started ?c2 = Suc (started c)" "Timeout ?c2 = Timeout c"
        using sqr by (simp_all add: c_error_simps)
      note ih' = ih [unfolded st]
      from ih' have b: "Suc (started c) \<le> started c'" "started c' \<le> Suc (started c) + (3 - (i + 1))"
        "Timeout c' = Timeout c" by simp_all
      from ih' have ih1: "\<And>k. Suc (started c) \<le> k \<Longrightarrow> Suc k < started c' \<Longrightarrow>
            \<exists>e. streamQuery_err (Timeout c) (w sql k) = Some e \<and> retryableError e"
        by blast
      from ih' have ih2: "\<And>k e. Suc (started c) \<le> k \<Longrightarrow> k < started c' \<Longrightarrow>
              streamQuery_err (Timeout c) (w sql k) = Some (Some e) \<Longrightarrow>
              \<not> retryableError (Some e) \<Longrightarrow> started c' = Suc k \<and> Error r' = Some e"
        by blast
      have p1: "\<exists>e. streamQuery_err (Timeout c) (w sql k) = Some e \<and> retryableError e"
        if "started c \<le> k \<and> Suc k < started c'" for k
      proof (cases "k = started c")
        case True
        then show ?thesis using sqr retry by simp
      next
        case False
        with that have "Suc (started c) \<le> k" by simp
        with that show ?thesis by (simp add: ih1)
      qed
      have p2: "started c' = Suc k \<and> Error r' = Some e"
        if "started c \<le> k \<and> k < started c' \<and> streamQuery_err (Timeout c) (w sql k) = Some (Some e)
              \<and> \<not> retryableError (Some e)" for k e
      proof (cases "k = started c")
        case True
        then show ?thesis using sqr retry that by simp
      next
        case False
        with that have "Suc (started c) \<le> k" by simp
        with that show ?thesis by (simp add: ih2)
      qed
      from b True p1 p2 show ?thesis by auto
    qed
  qed
qed

lemma not_retryable_syntax_plain: "\<not> retryableError (Some ''syntax error'')"
  by (simp add: retryableError_def retryable_at_def)

lemma export_refused:
  "Timeout c = 10 \<Longrightarrow>
   streamQuery sql tr_refused (r, c)
     = Some (Some refused_msg, r, c_error [''Unable to bulk export data:'', sql, refused_msg] c)"
  by (simp add: streamQuery_def race_refused refused_fields)

lemma export_syntax:
  "Timeout c = 10 \<Longrightarrow>
   streamQuery sql tr_syntax (r, c)
     = Some (Some ''syntax error'', r,
             c_error [''Unable to bulk export data:'', sql, ''syntax error''] c)"
  by (simp add: streamQuery_def race_syntax syntax_fields)

lemma export_err_refused: "streamQuery_err 10 tr_refused = Some (Some refused_msg)"
  by (simp add: streamQuery_err_def race_refused refused_fields)

lemma export_err_syntax: "streamQuery_err 10 tr_syntax = Some (Some ''syntax error'')"
  by (simp add: streamQuery_err_def race_syntax syntax_fields)

lemma export_err_ok: "streamQuery_err 10 tr_ok = Some None"
  by (simp add: streamQuery_err_def race_ok ok_fields)

lemma export_err_ok_0: "streamQuery_err 0 tr_ok = Some (Some ''Timed out doing BulkQuery'')"
  by (simp add: streamQuery_err_def race_ok_0 ok_fields)

lemmas loop_unfold =
  StreamQuery_loop.simps [of _ _ 0] StreamQuery_loop.simps [of _ _ "Suc 0"]
  StreamQuery_loop.simps [of _ _ "Suc (Suc 0)"] StreamQuery_loop.simps [of _ _ "Suc (Suc (Suc 0))"]

lemma export_refused_then_syntax:
  "StreamQuery (\<lambda>s k. if k = 0 then tr_refused else tr_syntax) export_sql c0
     = Some (\<lparr>BytesRead = 0, Data = [], Data_closed = True, Error = Some ''syntax error''\<rparr>,
             c0\<lparr>errlog := [[''Unable to bulk export data:'', export_sql, refused_msg],
                            [''Retrying...''],
                            [''Unable to bulk export data:'', export_sql, ''syntax error'']],
                started := 2\<rparr>)"
  by (simp add: StreamQuery_def loop_unfold export_refused export_syntax c_error_simps
        retryable_refused not_retryable_syntax_plain c0_fields)
     (simp add: c_error_def c0_def)

lemma export_refused_thrice:
  "StreamQuery (\<lambda>s k. tr_refused) export_sql c0
     = Some (\<lparr>BytesRead = 0, Data = [], Data_closed = True, Error = None\<rparr>,
             c0\<lparr>errlog := [[''Unable to bulk export data:'', export_sql, refused_msg],
                            [''Retrying...''],
                            [''Unable to bulk export data:'', export_sql, refused_msg],
                            [''Retrying...''],
                            [''Unable to bulk export data:'', export_sql, refused_msg],
                            [''Retrying...'']],
                started := 3\<rparr>)"
  by (simp add: StreamQuery_def loop_unfold export_refused c_error_simps
        retryable_refused c0_fields)
     (simp add: c_error_def c0_def)

text \<open>
  C5. When \<open>StreamQuery\<close>'s background task finishes, it has made at least one and at
  most three attempts; every attempt that was followed by another one failed with the
  "failed after 0 bytes ... Connection refused" signature; and an attempt that fails
  with any other error is the last one, its error being the \<open>Error\<close> of the \<open>Rows\<close>
  object (the result of \<open>StreamQuery\<close> is that object, never an error of its own).
\<close>

theorem StreamQuery_retry_policy:
  assumes "StreamQuery w sql c = Some (r, c')"
  shows "started c < started c' \<and> started c' \<le> started c + 3
     \<and> (\<forall>k. started c \<le> k \<and> Suc k < started c' \<longrightarrow>
            (\<exists>e. streamQuery_err (Timeout c) (w sql k) = Some e \<and> retryableError e))
     \<and> (\<forall>k e. started c \<le> k \<and> k < started c'
              \<and> streamQuery_err (Timeout c) (w sql k) = Some (Some e)
              \<and> \<not> retryableError (Some e) \<longrightarrow> started c' = Suc k \<and> Error r = Some e)"
proof -
  from assms obtain r0 where
    loop: "StreamQuery_loop w sql 0
             (\<lparr>BytesRead = 0, Data = [], Data_closed = False, Error = None\<rparr>, c) = Some (r0, c')"
    and r: "r = r0\<lparr>Data_closed := True\<rparr>"
    by (auto simp: StreamQuery_def split: option.splits)
  have "Error r = Error r0" using r by simp
  with StreamQuery_loop_props [OF loop] show ?thesis by auto
qed

theorem StreamQuery_retry_policy_witness:
  "map_option (\<lambda>rc. (Error (fst rc), started (snd rc)))
     (StreamQuery (\<lambda>s k. if k = 0 then tr_refused else tr_syntax) export_sql c0)
     = Some (Some ''syntax error'', 2)
   \<and> streamQuery_err (Timeout c0) tr_refused = Some (Some refused_msg)
   \<and> retryableError (Some refused_msg)
   \<and> streamQuery_err (Timeout c0) tr_syntax = Some (Some ''syntax error'')
   \<and> \<not> retryableError (Some ''syntax error'')"
proof -
  note t = StreamQuery_retry_policy [OF export_refused_then_syntax]
  have e1: "streamQuery_err (Timeout c0) tr_refused = Some (Some refused_msg)"
    by (simp add: c0_fields export_err_refused)
  have e2: "streamQuery_err (Timeout c0) tr_syntax = Some (Some ''syntax error'')"
    by (simp add: c0_fields export_err_syntax)
  from t have "\<forall>k e. started c0 \<le> k \<and> k < 2
              \<and> streamQuery_err (Timeout c0) (if k = 0 then tr_refused else tr_syntax) = Some (Some e)
              \<and> \<not> retryableError (Some e) \<longrightarrow>
              Error \<lparr>BytesRead = 0, Data = [], Data_closed = True, Error = Some ''syntax error''\<rparr>
                = Some e"
    by simp
  then have "Error \<lparr>BytesRead = 0, Data = [], Data_closed = True, Error = Some ''syntax error''\<rparr>
                = Some ''syntax error''"
    by simp
  with e1 e2 show ?thesis
    by (simp add: export_refused_then_syntax retryable_refused not_retryable_syntax_plain)
qed

text \<open>
  C3. Three attempts of an export that all fail with the "failed after 0 bytes ...
  Connection refused" signature: the background task finishes, the last attempt has
  failed with that error, and the \<open>Error\<close> of the \<open>Rows\<close> object is \<open>None\<close>.
  Likewise two such attempts of an import: \<open>StreamExecute\<close> returns no error.
\<close>

theorem StreamQuery_drops_last_retryable_error:
  "StreamQuery (\<lambda>s k. tr_refused) export_sql c0
     = Some (\<lparr>BytesRead = 0, Data = [], Data_closed = True, Error = None\<rparr>,
             c0\<lparr>errlog := [[''Unable to bulk export data:'', export_sql, refused_msg],
                            [''Retrying...''],
                            [''Unable to bulk export data:'', export_sql, refused_msg],
                            [''Retrying...''],
                            [''Unable to bulk export data:'', export_sql, refused_msg],
                            [''Retrying...'']],
                started := 3\<rparr>)
   \<and> streamQuery_err (Timeout c0) tr_refused = Some (Some refused_msg)
   \<and> streamExecuteNoRetry (Timeout c0) sample_sql tr_refused
       = Some (0, Some (import_error sample_sql refused_msg))
   \<and> StreamExecute (\<lambda>s d k. tr_refused) sample_sql (Some (single_chunk [1, 2, 3])) c0
       = (Returned None, c0\<lparr>errlog := [[''Retrying...''], [''Retrying...'']], started := 2\<rparr>)"
proof -
  have r: "retryableError (Some (import_error sample_sql refused_msg))"
    by (rule retryable_import_error [OF retryable_refused])
  have "StreamExecute (\<lambda>s d k. tr_refused) sample_sql (Some (single_chunk [1, 2, 3])) c0
       = (Returned None, c0\<lparr>errlog := [[''Retrying...''], [''Retrying...'']], started := 2\<rparr>)"
    by (simp add: StreamExecute_def c0_fields c_error_simps import_refused r)
       (simp add: c_error_def c0_def)
  then show ?thesis
    by (simp add: export_refused_thrice c0_fields export_err_refused import_refused)
qed

section \<open>The timeout\<close>

lemma timeout_ns_seconds: "timeout_ns t = unat t * 1000000000"
proof -
  have "unat t < 2 ^ 32" using unsigned_less [of t] by simp
  then have b: "unat t * 1000000000 < 2 ^ 64" by simp
  have "unat t < (2::nat) ^ 64"
    using \<open>unat t < 2 ^ 32\<close> by simp
  then have u: "unat (ucast t :: 64 word) = unat t"
    by (simp only: unsigned_ucast_eq take_bit_nat_eq_self ) (simp add: take_bit_nat_eq_self)
  show ?thesis
    using b by (simp add: timeout_ns_def unat_word_ariths u)
qed

lemma race_timeout_zero:
  assumes "\<forall>d. data_at tr = Some d \<longrightarrow> 0 < d" and "\<forall>r. resp_at tr = Some r \<longrightarrow> 0 < r"
  shows "race m 0 tr = Some (0, Some m)"
proof -
  have w: "wake tr 0 = 0" by (simp add: wake_def min_at_def split: option.splits)
  have nd: "\<not> ready tr 0 DataErr" using assms(1)
    by (auto simp: ready_def arrival_def w split: option.splits)
  have nr: "\<not> ready tr 0 RespErr" using assms(2)
    by (auto simp: ready_def arrival_def w split: option.splits)
  have only: "e = TimeAfter" if "ready tr 0 e" for e
    using that nd nr by (cases e) auto
  have "select_case tr 0 = TimeAfter"
  proof (cases "filter (ready tr 0) (pollorder tr @ [DataErr, RespErr, TimeAfter])")
    case Nil
    then show ?thesis by (simp add: select_case_def)
  next
    case (Cons e es)
    then have "e \<in> set (filter (ready tr 0) (pollorder tr @ [DataErr, RespErr, TimeAfter]))"
      by simp
    then have "ready tr 0 e" by (simp only: set_filter mem_Collect_eq)
    then have "e = TimeAfter" by (rule only)
    with Cons show ?thesis by (simp add: select_case_def)
  qed
  then show ?thesis by (simp add: race_def timeout_ns_0)
qed

lemma race_timeout_exceeded:
  assumes "\<forall>d. data_at tr = Some d \<longrightarrow> timeout_ns t < d"
    and "\<forall>r. resp_at tr = Some r \<longrightarrow> timeout_ns t < r"
  shows "race m t tr = Some (timeout_ns t, Some m)"
proof -
  let ?T = "timeout_ns t"
  have w: "wake tr ?T = ?T" using assms
    by (auto simp: wake_def min_at_def split: option.splits)
  have nd: "\<not> ready tr ?T DataErr" using assms(1)
    by (auto simp: ready_def arrival_def w split: option.splits)
  have nr: "\<not> ready tr ?T RespErr" using assms(2)
    by (auto simp: ready_def arrival_def w split: option.splits)
  have only: "e = TimeAfter" if "ready tr ?T e" for e
    using that nd nr by (cases e) auto
  have "select_case tr ?T = TimeAfter"
  proof (cases "filter (ready tr ?T) (pollorder tr @ [DataErr, RespErr, TimeAfter])")
    case Nil
    then show ?thesis by (simp add: select_case_def)
  next
    case (Cons e es)
    then have "e \<in> set (filter (ready tr ?T) (pollorder tr @ [DataErr, RespErr, TimeAfter]))"
      by simp
    then have "ready tr ?T e" by (simp only: set_filter mem_Collect_eq)
    then have "e = TimeAfter" by (rule only)
    with Cons show ?thesis by (simp add: select_case_def)
  qed
  then show ?thesis by (simp add: race_def)
qed

text \<open>
  C4. With \<open>Timeout = 0\<close> the timer of \<^verbatim>\<open>time.After\<close> has duration \<open>0\<close>: a transfer that
  ends after 2000 ns with a command that ends after 3000 ns, both without error, is an
  import that fails with "Timed out doing StreamExecute" and an export that fails with
  "Timed out doing BulkQuery". With \<open>Timeout = 10\<close> the same transfers succeed.
\<close>

theorem zero_timeout_times_out_at_once:
  "streamExecuteNoRetry 0 sample_sql tr_ok
     = Some (0, Some (import_error sample_sql ''Timed out doing StreamExecute''))
   \<and> streamQuery_err 0 tr_ok = Some (Some ''Timed out doing BulkQuery'')
   \<and> streamExecuteNoRetry 10 sample_sql tr_ok = Some (3, None)
   \<and> streamQuery_err 10 tr_ok = Some None"
  by (simp add: import_ok_0 import_ok export_err_ok export_err_ok_0)

section \<open>The buffer variants\<close>

lemma foldl_Buffer_Write: "foldl Buffer_Write buf chunks = buf @ concat chunks"
  by (induction chunks arbitrary: buf) (simp_all add: Buffer_Write_def)

text \<open>
  C6. For a buffer that is not nil, \<open>BulkExecute\<close> is \<open>StreamExecute\<close> on the closed
  channel that holds the buffer's bytes as its one chunk, and \<open>BulkQuery\<close> is
  \<open>StreamQuery\<close> with the chunks appended to the buffer in order, returning an error
  exactly when the \<open>Rows\<close> object carries one.
\<close>

theorem Bulk_is_single_chunk_Stream:
  "BulkExecute wi sql (Some bytes) c = StreamExecute wi sql (Some (single_chunk bytes)) c
   \<and> BulkQuery we sql (Some buf) c = BulkQuery_spec we sql buf c"
  by (simp add: BulkExecute_def BulkQuery_def BulkQuery_spec_def single_chunk_def make_chan_def
        chan_send_def chan_close_def foldl_Buffer_Write split: option.split)

text \<open>
  C9. \<open>BulkExecute\<close> and \<open>BulkQuery\<close> with a nil buffer and \<open>StreamExecute\<close> with a nil
  channel call \<^verbatim>\<open>c.log.Fatal\<close> with their message; nothing is returned to the caller
  and no transfer is started.
\<close>

theorem nil_argument_is_fatal:
  "BulkExecute wi sql None c
     = (Fatal ''You must pass in a bytes.Buffer pointer to BulkExecute'', c)
   \<and> BulkQuery we sql None c
     = (Fatal ''You must pass in a bytes.Buffer pointer to BulkQuery'', c)
   \<and> StreamExecute wi sql None c
     = (Fatal ''You must pass in a []byte chan to StreamExecute'', c)"
  by (simp add: BulkExecute_def BulkQuery_def StreamExecute_def log_Fatal_def)

section \<open>Statement engine: recovery from a lost handle\<close>

lemma handle_not_found_sample: "handle_not_found ''Statement handle not found''"
  by (simp add: handle_not_found_def)

lemma Transpose_one_bind: "Transpose [[JNum 1]] = Returned [[JNum 1]]"
  by (simp add: Transpose_def)

lemma Execute_recover_keeps_error:
  assumes "getPrepStmt d sch sql (c\<lparr>prepStmtCache := (prepStmtCache c)(sql := None)\<rparr>) = (Inr p', c1)"
    and "stmts c1 p' = Some ps'"
    and "send (ws d) (execReq (sth ps')) c1 = ((res, err'), c2)"
  shows "fst (Execute_recover d sch sql execReq ps err c) = Returned (res, err)"
  using assms by (simp add: Execute_recover_def Execute_return_def)

text \<open>
  C2. The cache holds handle 7 for the statement and the server answers the first
  execution with "Statement handle not found". \<open>Execute\<close> evicts the statement, prepares
  it again (handle 8) and executes it once more, with success; it returns the response
  of that second execution together with the error of the first one, not \<^verbatim>\<open>nil\<close>.
\<close>

theorem Execute_recovery_returns_first_error:
  "fst (Execute (model_deps scripted) insert_sql one_bind stale_conn)
     = Returned (row_count_response, Some ''Statement handle not found'')
   \<and> sent (snd (Execute (model_deps scripted) insert_sql one_bind stale_conn))
     = [execPrepStmtJSON 7 1 1 [sample_col] [[JNum 1]],
        createPrepStmtJSON [] insert_sql,
        execPrepStmtJSON 8 1 1 [sample_col] [[JNum 1]]]
   \<and> sock (snd (Execute (model_deps scripted) insert_sql one_bind stale_conn)) = []"
  by (simp add: Execute_def Execute_recover_def Execute_return_def model_deps_def
        getPrepStmt_model_def one_bind_def stale_conn_def send_def handle_not_found_sample Transpose_one_bind jget_def Let_def)

section \<open>Result streamer\<close>

lemma fetch_pages_done:
  "\<not> i < numRows \<Longrightarrow> fetch_pages sk rsh numRows i ch c = Some (Returned (), ch, c)"
  by (subst fetch_pages.simps) simp

lemma fetch_pages_step:
  "i < numRows \<Longrightarrow> fetch_page sk rsh i ch c = Inr (i', ch', c') \<Longrightarrow>
     fetch_pages sk rsh numRows i ch c = fetch_pages sk rsh numRows i' ch' c'"
  by (subst fetch_pages.simps) simp

lemma fetch_pages_end:
  "i < numRows \<Longrightarrow> fetch_page sk rsh i ch c = Inl ended \<Longrightarrow>
     fetch_pages sk rsh numRows i ch c = Some ended"
  by (subst fetch_pages.simps) simp

lemma fetch_pages_passes:
  "passes n sk rsh numRows (i, ch, c) = Some (i', ch', c') \<Longrightarrow>
     fetch_pages sk rsh numRows i ch c = fetch_pages sk rsh numRows i' ch' c'"
proof (induction n arbitrary: i ch c)
  case 0
  then show ?case by simp
next
  case (Suc n)
  from Suc.prems obtain i1 ch1 c1 where
    lt: "i < numRows" and
    p: "fetch_page sk rsh i ch c = Inr (i1, ch1, c1)" and
    rest: "passes n sk rsh numRows (i1, ch1, c1) = Some (i', ch', c')"
    by (auto split: if_splits sum.splits)
  from fetch_pages_step [OF lt p] Suc.IH [OF rest] show ?case by simp
qed

lemma transposeToChan_closed:
  "transposeToChan ch matrix = Returned ch' \<Longrightarrow> rows_closed ch' = rows_closed ch"
  by (auto simp: transposeToChan_def split: option.splits outcome.splits)

lemma fetch_page_closed:
  "fetch_page sk rsh i ch c = Inr (i', ch', c') \<Longrightarrow> rows_closed ch' = rows_closed ch"
  by (auto simp: fetch_page_def split: prod.splits option.splits json.splits outcome.splits
           dest: transposeToChan_closed)

lemma passes_closed:
  "passes n sk rsh numRows (i, ch, c) = Some (i', ch', c') \<Longrightarrow> rows_closed ch' = rows_closed ch"
proof (induction n arbitrary: i ch c)
  case 0
  then show ?case by simp
next
  case (Suc n)
  from Suc.prems obtain i1 ch1 c1 where
    p: "fetch_page sk rsh i ch c = Inr (i1, ch1, c1)" and
    rest: "passes n sk rsh numRows (i1, ch1, c1) = Some (i', ch', c')"
    by (auto split: if_splits sum.splits)
  from fetch_page_closed [OF p] Suc.IH [OF rest] show ?case by simp
qed

lemma passes_positive:
  "passes n sk rsh numRows (0, ch, c) = Some (i', ch', c') \<Longrightarrow> i' < numRows \<Longrightarrow> 0 < numRows"
  by (cases n) (auto split: if_splits)

lemma fetch_page_error:
  "send sk (fetchJSON rsh i (64 * 1024 * 1024)) c = ((chunk, Some err), c') \<Longrightarrow>
     fetch_page sk rsh i ch c = Inl (Panicked err, ch, c')"
  by (simp add: fetch_page_def)

text \<open>What \<open>FetchChan\<close> does once \<open>Execute\<close> has returned a result-set header.\<close>

lemma FetchChan_producer:
  assumes "Execute d sql \<lparr>binds = [bs], schema = sch, dataTypes = None, isColumnar = False\<rparr> s0
             = (Returned (response, None), c1)"
    and "jget response ''numResults'' = JNum 1"
    and "jget response ''results'' = JArr (JObj results # others)"
    and "jget results ''resultSet'' = JObj rs"
  shows "FetchChan d sql bs sch s0
           = (case producer (ws d) rs \<lparr>rows = [], rows_closed = False\<rparr> c1 of
                None \<Rightarrow> None
              | Some (out, ch, c2) \<Rightarrow> Some (Returned (Streaming out ch), c2))"
  using assms by (simp add: FetchChan_def)

text \<open>
  C8. When the result set of the query advertises zero rows, \<open>FetchChan\<close> gives a
  channel that is closed with no row sent on it, and the session is as \<open>Execute\<close>
  left it: the producer task writes no request to the socket.
\<close>

theorem FetchChan_zero_rows:
  assumes "Execute d sql \<lparr>binds = [bs], schema = sch, dataTypes = None, isColumnar = False\<rparr> s0
             = (Returned (response, None), c1)"
    and "jget response ''numResults'' = JNum 1"
    and "jget response ''results'' = JArr (JObj results # others)"
    and "jget results ''resultSet'' = JObj rs"
    and "jget rs ''numRows'' = JNum 0"
  shows "FetchChan d sql bs sch s0
           = Some (Returned (Streaming (Returned ()) \<lparr>rows = [], rows_closed = True\<rparr>), c1)"
  using assms(5) by (simp add: FetchChan_producer [OF assms(1-4)] producer_def)

text \<open>
  C10. When \<open>Execute\<close> has returned a result-set header with a handle, the loop of the
  producer task has made \<open>n\<close> passes and its next fetch request returns the error
  \<open>err\<close>, then the producer task ends in a panic with \<open>err\<close>: the channel is as the
  passes left it and is not closed, and the session is as that fetch left it (no
  \<^verbatim>\<open>closeResultSet\<close> request follows). \<open>FetchChan\<close> itself has returned the channel.
\<close>

theorem FetchChan_fetch_error_panics:
  assumes "Execute d sql \<lparr>binds = [bs], schema = sch, dataTypes = None, isColumnar = False\<rparr> s0
             = (Returned (response, None), c1)"
    and "jget response ''numResults'' = JNum 1"
    and "jget response ''results'' = JArr (JObj results # others)"
    and "jget results ''resultSet'' = JObj rs"
    and "jget rs ''numRows'' = JNum numRows"
    and "jget rs ''resultSetHandle'' = JNum rsh"
    and "passes n (ws d) rsh numRows (0, \<lparr>rows = [], rows_closed = False\<rparr>, c1) = Some (i, ch, c)"
    and "i < numRows"
    and "send (ws d) (fetchJSON rsh i (64 * 1024 * 1024)) c = ((chunk, Some err), c')"
  shows "FetchChan d sql bs sch s0 = Some (Returned (Streaming (Panicked err) ch), c')
         \<and> \<not> rows_closed ch"
proof -
  have pos: "numRows \<noteq> 0" using passes_positive [OF assms(7) assms(8)] by simp
  have "fetch_pages (ws d) rsh numRows 0 \<lparr>rows = [], rows_closed = False\<rparr> c1
          = fetch_pages (ws d) rsh numRows i ch c"
    by (rule fetch_pages_passes [OF assms(7)])
  also have "\<dots> = Some (Panicked err, ch, c')"
    by (rule fetch_pages_end [OF assms(8) fetch_page_error [OF assms(9)]])
  finally have "producer (ws d) rs \<lparr>rows = [], rows_closed = False\<rparr> c1 = Some (Panicked err, ch, c')"
    using pos assms(5,6) by (simp add: producer_def)
  then have "FetchChan d sql bs sch s0 = Some (Returned (Streaming (Panicked err) ch), c')"
    by (simp add: FetchChan_producer [OF assms(1-4)])
  moreover have "\<not> rows_closed ch" using passes_closed [OF assms(7)] by simp
  ultimately show ?thesis by simp
qed

section \<open>The paging server\<close>

lemma columns_of_map_JArr: "columns_of (map JArr cols) = Some cols"
  by (induction cols) simp_all

lemma columns_of_column_major:
  "columns_of (column_major page M) = Some (map (\<lambda>j. map (\<lambda>row. row ! j) page) [0..<M])"
  using columns_of_map_JArr [of "map (\<lambda>j. map (\<lambda>row. row ! j) page) [0..<M]"]
  by (simp add: column_major_def comp_def)

lemma Transpose_columns:
  assumes "0 < M" and "\<forall>r \<in> set page. length r = M"
  shows "Transpose (map (\<lambda>j. map (\<lambda>row. row ! j) page) [0..<M]) = Returned page"
proof -
  let ?f = "\<lambda>j. map (\<lambda>row. row ! j) page"
  have split: "map ?f [0..<M] = ?f 0 # map ?f [Suc 0..<M]"
    using assms(1) by (simp add: upt_conv_Cons)
  have all: "list_all (\<lambda>x. length x = length (?f 0)) (map ?f [Suc 0..<M])"
    by (simp add: list_all_iff)
  have main: "map (\<lambda>j. map (\<lambda>col. col ! j) (map ?f [0..<M])) [0..<length page] = page"
  proof (rule nth_equalityI)
    show "length (map (\<lambda>j. map (\<lambda>col. col ! j) (map ?f [0..<M])) [0..<length page]) = length page"
      by simp
  next
    fix k
    assume "k < length (map (\<lambda>j. map (\<lambda>col. col ! j) (map ?f [0..<M])) [0..<length page])"
    then have k: "k < length page" by simp
    then have len: "length (page ! k) = M" using assms(2) by simp
    have a: "map (\<lambda>col. col ! k) (map ?f [0..<M]) = map (\<lambda>j. page ! k ! j) [0..<M]"
      using k by simp
    have b: "map (\<lambda>j. page ! k ! j) [0..<M] = page ! k"
      using map_nth [of "page ! k"] by (simp only: len)
    have "map (\<lambda>j. map (\<lambda>col. col ! j) (map ?f [0..<M])) [0..<length page] ! k
            = map (\<lambda>col. col ! k) (map ?f [0..<M])"
      using k by (simp only: nth_map length_upt nth_upt minus_nat.diff_0 add_0)
    then show "map (\<lambda>j. map (\<lambda>col. col ! j) (map ?f [0..<M])) [0..<length page] ! k = page ! k"
      by (simp only: a b)
  qed
  have "Transpose (map ?f [0..<M]) = Transpose (?f 0 # map ?f [Suc 0..<M])"
    by (simp only: split)
  also have "\<dots> = Returned (map (\<lambda>j. map (\<lambda>col. col ! j) (?f 0 # map ?f [Suc 0..<M]))
                              [0..<length (?f 0)])"
    using all by (simp only: Transpose_def list.case if_True)
  also have "\<dots> = Returned (map (\<lambda>j. map (\<lambda>col. col ! j) (map ?f [0..<M])) [0..<length page])"
    by (simp only: split [symmetric] length_map)
  also have "\<dots> = Returned page"
    by (simp only: main)
  finally show ?thesis .
qed

lemma transposeToChan_column_major:
  assumes "0 < M" and "\<forall>r \<in> set page. length r = M"
  shows "transposeToChan ch (column_major page M) = Returned (ch\<lparr>rows := rows ch @ page\<rparr>)"
  by (simp add: transposeToChan_def columns_of_column_major Transpose_columns [OF assms])

lemma page_fetch:
  assumes "0 < M" and "\<forall>r \<in> set all. length r = M" and "fail (sock c) = None"
  shows "fetch_page (page_server all M C h fail) rsh (int i) ch c
           = Inr (int (i + length (take C (drop i all))),
                  ch\<lparr>rows := rows ch @ take C (drop i all)\<rparr>,
                  c\<lparr>sent := sent c @ [fetchJSON rsh (int i) (64 * 1024 * 1024)],
                     sock := Suc (sock c)\<rparr>)"
proof -
  have u: "\<forall>r \<in> set (take C (drop i all)). length r = M"
    using assms(2) by (meson in_set_dropD in_set_takeD)
  show ?thesis
    using assms(3)
    by (simp add: fetch_page_def send_def page_server_def jget_def
          transposeToChan_column_major [OF assms(1) u])
qed

lemma page_fetch_fails:
  assumes "fail (sock c) = Some e"
  shows "send (page_server all M C h fail) (fetchJSON rsh i b) c
           = (([], Some e), c\<lparr>sent := sent c @ [fetchJSON rsh i b], sock := Suc (sock c)\<rparr>)"
  using assms by (simp add: send_def page_server_def)

lemma Execute_page_server:
  "Execute (model_deps (page_server all M C h fail)) sql
     \<lparr>binds = [[]], schema = sch, dataTypes = None, isColumnar = False\<rparr> c
   = (Returned (result_set_response
                  [(''numRows'', JNum (int (length all))), (''resultSetHandle'', JNum h)], None),
      c\<lparr>sent := sent c @ [executeStmtJSON sch sql]\<rparr>)"
  by (simp add: Execute_def model_deps_def send_def page_server_def)

lemma result_set_response_fields:
  "jget (result_set_response rs) ''numResults'' = JNum 1"
  "jget (result_set_response rs) ''results''
     = JArr (JObj [(''resultType'', JStr ''resultSet''), (''resultSet'', JObj rs)] # [])"
  "jget [(''resultType'', JStr ''resultSet''), (''resultSet'', JObj rs)] ''resultSet'' = JObj rs"
  by (simp_all add: result_set_response_def jget_def)

lemma header_fields:
  "jget [(''numRows'', JNum n), (''resultSetHandle'', JNum h)] ''numRows'' = JNum n"
  "jget [(''numRows'', JNum n), (''resultSetHandle'', JNum h)] ''resultSetHandle'' = JNum h"
  by (simp_all add: jget_def)

lemma pages_count:
  assumes "0 < C" and "0 < d"
  shows "(d + C - 1) div C = Suc ((d - min C d + C - 1) div C)"
proof (cases "C \<le> d")
  case True
  from assms(2) obtain e where d: "d = Suc e" by (cases d) auto
  have "(d + C - 1) div C = (e + C) div C" by (simp add: d)
  also have "\<dots> = Suc (e div C)" using assms(1) by (simp add: div_add_self2)
  also have "e = d - min C d + C - 1" using True by (simp add: d min_def)
  finally show ?thesis .
next
  case False
  then have "(d + C - 1) div C = 1"
    using assms by (intro div_nat_eqI) simp_all
  moreover have "(C - 1) div C = 0" using assms(1) by simp
  ultimately show ?thesis using False by (simp add: min_def)
qed

lemma take_drop_min: "take C xs @ drop (min C (length xs)) xs = xs"
  by (cases "C \<le> length xs") (simp_all add: min_def)

lemma pages_all:
  assumes M: "0 < M" and u: "\<forall>r \<in> set all. length r = M" and C: "0 < C"
    and ok: "\<forall>k. fail k = None"
  shows "i \<le> length all \<Longrightarrow>
     fetch_pages (page_server all M C h fail) rsh (int (length all)) (int i) ch c
       = Some (Returned (), ch\<lparr>rows := rows ch @ drop i all\<rparr>,
               c\<lparr>sent := sent c @ map (\<lambda>k. fetchJSON rsh (int (i + k * C)) (64 * 1024 * 1024))
                                      [0..<(length all - i + C - 1) div C],
                  sock := sock c + (length all - i + C - 1) div C\<rparr>)"
proof (induction "length all - i" arbitrary: i ch c rule: less_induct)
  case less
  show ?case
  proof (cases "i = length all")
    case True
    have "(C - 1) div C = 0" using C by simp
    then show ?thesis using True by (simp add: fetch_pages_done)
  next
    case False
    with less.prems have lt: "i < length all" by simp
    let ?d = "length all - i"
    let ?p = "min C ?d"
    let ?page = "take C (drop i all)"
    let ?i' = "i + ?p"
    let ?f = "\<lambda>j. fetchJSON rsh (int j) (64 * 1024 * 1024)"
    let ?ch' = "ch\<lparr>rows := rows ch @ ?page\<rparr>"
    let ?c' = "c\<lparr>sent := sent c @ [?f i], sock := Suc (sock c)\<rparr>"
    let ?n' = "(length all - ?i' + C - 1) div C"
    have len: "length ?page = ?p" by simp
    have p: "0 < ?p" using lt C by simp
    have le: "?i' \<le> length all" using lt by (simp add: min_def) arith
    have dec: "length all - ?i' < length all - i" using p lt by simp
    have step: "fetch_page (page_server all M C h fail) rsh (int i) ch c = Inr (int ?i', ?ch', ?c')"
      using page_fetch [OF M u, of fail c C h rsh i ch] ok by (simp only: len)
    have ilt: "int i < int (length all)" using lt by simp
    have run: "fetch_pages (page_server all M C h fail) rsh (int (length all)) (int i) ch c
          = fetch_pages (page_server all M C h fail) rsh (int (length all)) (int ?i') ?ch' ?c'"
      by (rule fetch_pages_step [OF ilt step])
    note ih = less.hyps [OF dec le, of ?ch' ?c']
    have cnt: "(?d + C - 1) div C = Suc ?n'"
    proof -
      have e1: "length all - ?i' = ?d - ?p" by simp
      have "0 < ?d" using lt by simp
      from pages_count [OF C this] show ?thesis by (simp only: e1)
    qed
    have rws: "(rows ch @ ?page) @ drop ?i' all = rows ch @ drop i all"
    proof -
      have "drop ?i' all = drop (min C (length (drop i all))) (drop i all)"
        by (simp add: add.commute)
      then show ?thesis using take_drop_min [of C "drop i all"] by simp
    qed
    have offs: "?f (i + Suc k * C) = ?f (?i' + k * C)" if "k \<in> set [0..<?n']" for k
    proof -
      from that have that: "k < ?n'" by simp
      have "?p = C"
      proof (rule ccontr)
        assume "?p \<noteq> C"
        then have "?d < C" by (simp add: min_def split: if_splits)
        then have "length all - ?i' = 0" by (simp add: min_def)
        then have "?n' = 0" using C by simp
        with that show False by simp
      qed
      then show ?thesis by simp
    qed
    have reqs: "[?f i] @ map (\<lambda>k. ?f (?i' + k * C)) [0..<?n']
                  = map (\<lambda>k. ?f (i + k * C)) [0..<Suc ?n']"
    proof -
      have "map (\<lambda>k. ?f (i + k * C)) [0..<Suc ?n']
              = ?f i # map (\<lambda>k. ?f (i + Suc k * C)) [0..<?n']"
        by (simp only: map_Suc_upt [symmetric] upt_conv_Cons [of 0 "Suc ?n'"] zero_less_Suc
              list.map map_map comp_def) simp
      also have "map (\<lambda>k. ?f (i + Suc k * C)) [0..<?n'] = map (\<lambda>k. ?f (?i' + k * C)) [0..<?n']"
        by (rule map_cong [OF refl]) (rule offs)
      finally show ?thesis by simp
    qed
    show ?thesis
      unfolding run ih cnt
      using rws reqs by simp
  qed
qed

lemma five_rows_shape: "length five_rows = 5" "\<forall>r \<in> set five_rows. length r = 2" "five_rows \<noteq> []"
  by (simp_all add: five_rows_def)

lemma ws_model_deps: "ws (model_deps sk) = sk"
  by (simp add: model_deps_def)

text \<open>
  Against the paging server, where every page but the last holds \<open>C\<close> rows, the
  fetches are the \<open>\<lceil>R/C\<rceil>\<close> ones at the offsets \<open>0, C, 2C, \<dots>\<close>, followed by
  the one \<^verbatim>\<open>closeResultSet\<close> request.
\<close>

lemma FetchChan_page_cap:
  assumes "Execute d sql \<lparr>binds = [bs], schema = sch, dataTypes = None, isColumnar = False\<rparr> s0
             = (Returned (response, None), c1)"
    and "jget response ''numResults'' = JNum 1"
    and "jget response ''results'' = JArr (JObj results # others)"
    and "jget results ''resultSet'' = JObj rs"
    and "jget rs ''numRows'' = JNum (int (length all))"
    and "jget rs ''resultSetHandle'' = JNum rsh"
    and "ws d = page_server all M C h (\<lambda>k. None)"
    and "all \<noteq> []" and "0 < C" and "0 < M" and "\<forall>r \<in> set all. length r = M"
  shows "FetchChan d sql bs sch s0
           = Some (Returned (Streaming (Returned ()) \<lparr>rows = all, rows_closed = True\<rparr>),
                   c1\<lparr>sent := sent c1
                              @ map (\<lambda>k. fetchJSON rsh (int (k * C)) (64 * 1024 * 1024))
                                  [0..<(length all + C - 1) div C]
                              @ [closeResultSetJSON [rsh]],
                      sock := sock c1 + (length all + C - 1) div C\<rparr>)"
proof -
  let ?c2 = "c1\<lparr>sent := sent c1 @ map (\<lambda>k. fetchJSON rsh (int (k * C)) (64 * 1024 * 1024))
                                      [0..<(length all + C - 1) div C],
                 sock := sock c1 + (length all + C - 1) div C\<rparr>"
  have "fetch_pages (ws d) rsh (int (length all)) (int 0) \<lparr>rows = [], rows_closed = False\<rparr> c1
          = Some (Returned (), \<lparr>rows = all, rows_closed = False\<rparr>, ?c2)"
    unfolding assms(7)
    using pages_all [OF assms(10) assms(11) assms(9), of "\<lambda>k. None" 0 h rsh
                       "\<lparr>rows = [], rows_closed = False\<rparr>" c1]
    by simp
  then have pages: "fetch_pages (ws d) rsh (int (length all)) 0 \<lparr>rows = [], rows_closed = False\<rparr> c1
          = Some (Returned (), \<lparr>rows = all, rows_closed = False\<rparr>, ?c2)"
    by simp
  have close: "send (page_server all M C h (\<lambda>k. None)) (closeResultSetJSON [rsh]) c
                 = (([], None), c\<lparr>sent := sent c @ [closeResultSetJSON [rsh]]\<rparr>)" for c
    by (simp add: send_def page_server_def)
  have "producer (ws d) rs \<lparr>rows = [], rows_closed = False\<rparr> c1
          = Some (Returned (), \<lparr>rows = all, rows_closed = True\<rparr>,
                  ?c2\<lparr>sent := sent ?c2 @ [closeResultSetJSON [rsh]]\<rparr>)"
    using assms(8) by (simp add: producer_def assms(5) assms(6) pages) (simp add: assms(7) close)
  then show ?thesis
    by (simp add: FetchChan_producer [OF assms(1-4)])
qed

lemma FetchChan_page_cap_sample:
  "FetchChan (model_deps (page_server five_rows 2 2 77 (\<lambda>k. None))) fetch_sql [] [] fresh_conn
     = Some (Returned (Streaming (Returned ()) \<lparr>rows = five_rows, rows_closed = True\<rparr>),
             fresh_conn\<lparr>sent := [executeStmtJSON [] fetch_sql,
                                 fetchJSON 77 0 67108864, fetchJSON 77 2 67108864,
                                 fetchJSON 77 4 67108864, closeResultSetJSON [77]],
                        sock := 3\<rparr>)"
proof -
  let ?srv = "page_server five_rows 2 2 77 (\<lambda>k. None)"
  have upt3: "[0..<3] = [0, 1, 2]" by (simp add: upt_rec)
  have two: "(0::nat) < 2" by simp
  have e: "Execute (model_deps ?srv) fetch_sql
             \<lparr>binds = [[]], schema = [], dataTypes = None, isColumnar = False\<rparr> fresh_conn
           = (Returned (result_set_response
                  [(''numRows'', JNum (int (length five_rows))), (''resultSetHandle'', JNum 77)], None),
              fresh_conn\<lparr>sent := sent fresh_conn @ [executeStmtJSON [] fetch_sql]\<rparr>)"
    by (rule Execute_page_server)
  have w: "ws (model_deps ?srv) = ?srv" by (rule ws_model_deps)
  note t = FetchChan_page_cap
    [OF e result_set_response_fields(1) result_set_response_fields(2)
        result_set_response_fields(3) header_fields(1) header_fields(2) w
        five_rows_shape(3) two two five_rows_shape(2)]
  then show ?thesis
    by (simp add: five_rows_shape(1) upt3 fresh_conn_def)
qed

text \<open>
  With a row count of zero the zero-row case comes first, also when the header carries a
  handle (here 77): the only request of the whole call is the execute, and no
  \<^verbatim>\<open>closeResultSet\<close> request is issued.
\<close>

lemma FetchChan_zero_rows_sends_nothing:
  "Execute (model_deps (page_server [] 2 2 77 (\<lambda>k. None))) fetch_sql
     \<lparr>binds = [[]], schema = [], dataTypes = None, isColumnar = False\<rparr> fresh_conn
     = (Returned (result_set_response [(''numRows'', JNum 0), (''resultSetHandle'', JNum 77)], None),
        fresh_conn\<lparr>sent := [executeStmtJSON [] fetch_sql]\<rparr>)
   \<and> FetchChan (model_deps (page_server [] 2 2 77 (\<lambda>k. None))) fetch_sql [] [] fresh_conn
     = Some (Returned (Streaming (Returned ()) \<lparr>rows = [], rows_closed = True\<rparr>),
             fresh_conn\<lparr>sent := [executeStmtJSON [] fetch_sql]\<rparr>)"
proof -
  have e: "Execute (model_deps (page_server [] 2 2 77 (\<lambda>k. None))) fetch_sql
     \<lparr>binds = [[]], schema = [], dataTypes = None, isColumnar = False\<rparr> fresh_conn
     = (Returned (result_set_response [(''numRows'', JNum 0), (''resultSetHandle'', JNum 77)], None),
        fresh_conn\<lparr>sent := [executeStmtJSON [] fetch_sql]\<rparr>)"
    using Execute_page_server
      [where all = "[]" and M = 2 and C = 2 and h = 77 and fail = "\<lambda>k. None" and sql = fetch_sql
         and sch = "[]" and c = fresh_conn]
    by (simp add: fresh_conn_def)
  show ?thesis
    by (simp add: e FetchChan_producer [OF e result_set_response_fields(1)
          result_set_response_fields(2) result_set_response_fields(3)] producer_def header_fields)
qed

theorem FetchChan_zero_rows_witness:
  "FetchChan (model_deps (page_server [] 3 4 9 (\<lambda>k. None))) fetch_sql [] [] fresh_conn
     = Some (Returned (Streaming (Returned ()) \<lparr>rows = [], rows_closed = True\<rparr>),
             fresh_conn\<lparr>sent := [executeStmtJSON [] fetch_sql]\<rparr>)"
proof -
  have e: "Execute (model_deps (page_server [] 3 4 9 (\<lambda>k. None))) fetch_sql
             \<lparr>binds = [[]], schema = [], dataTypes = None, isColumnar = False\<rparr> fresh_conn
           = (Returned (result_set_response
                  [(''numRows'', JNum (int (length ([] :: json list list)))),
                   (''resultSetHandle'', JNum 9)], None),
              fresh_conn\<lparr>sent := sent fresh_conn @ [executeStmtJSON [] fetch_sql]\<rparr>)"
    by (rule Execute_page_server)
  have z: "jget [(''numRows'', JNum (int (length ([] :: json list list)))),
                 (''resultSetHandle'', JNum 9)] ''numRows'' = JNum 0"
    by (simp add: header_fields)
  note t = FetchChan_zero_rows
    [OF e result_set_response_fields(1) result_set_response_fields(2)
        result_set_response_fields(3) z]
  then show ?thesis by (simp add: fresh_conn_def)
qed

theorem FetchChan_fetch_error_panics_witness:
  "FetchChan (model_deps (page_server five_rows 2 2 77 second_fails)) fetch_sql [] [] fresh_conn
     = Some (Returned (Streaming (Panicked ''connection lost'')
                         \<lparr>rows = [[JNum 1, JStr ''a''], [JNum 2, JStr ''b'']],
                            rows_closed = False\<rparr>),
             fresh_conn\<lparr>sent := [executeStmtJSON [] fetch_sql,
                                 fetchJSON 77 0 67108864, fetchJSON 77 2 67108864],
                        sock := 2\<rparr>)"
proof -
  let ?srv = "page_server five_rows 2 2 77 second_fails"
  let ?c1 = "fresh_conn\<lparr>sent := sent fresh_conn @ [executeStmtJSON [] fetch_sql]\<rparr>"
  let ?ch = "\<lparr>rows = [] @ take 2 (drop 0 five_rows), rows_closed = False\<rparr>"
  let ?c = "?c1\<lparr>sent := sent ?c1 @ [fetchJSON 77 (int 0) (64 * 1024 * 1024)], sock := Suc (sock ?c1)\<rparr>"
  have f0: "second_fails (sock ?c1) = None" by (simp add: second_fails_def fresh_conn_def)
  have f1: "second_fails (sock ?c) = Some ''connection lost''"
    by (simp add: second_fails_def fresh_conn_def)
  have two: "(0::nat) < 2" by simp
  have p: "passes (Suc 0) (ws (model_deps ?srv)) 77 (int (length five_rows))
             (0, \<lparr>rows = [], rows_closed = False\<rparr>, ?c1) = Some (2, ?ch, ?c)"
    using page_fetch [where fail = second_fails and c = ?c1 and C = 2 and h = 77 and rsh = 77
                        and i = 0 and ch = "\<lparr>rows = [], rows_closed = False\<rparr>",
                      OF two five_rows_shape(2) f0]
    by (simp add: ws_model_deps five_rows_shape(1))
  have s: "send (ws (model_deps ?srv)) (fetchJSON 77 2 (64 * 1024 * 1024)) ?c
             = (([], Some ''connection lost''),
                ?c\<lparr>sent := sent ?c @ [fetchJSON 77 2 (64 * 1024 * 1024)], sock := Suc (sock ?c)\<rparr>)"
    unfolding ws_model_deps
    by (rule page_fetch_fails [where fail = second_fails and c = ?c, OF f1])
  have lt: "(2::int) < int (length five_rows)" by (simp add: five_rows_shape(1))
  have e: "Execute (model_deps ?srv) fetch_sql
             \<lparr>binds = [[]], schema = [], dataTypes = None, isColumnar = False\<rparr> fresh_conn
           = (Returned (result_set_response
                  [(''numRows'', JNum (int (length five_rows))), (''resultSetHandle'', JNum 77)], None),
              ?c1)"
    by (rule Execute_page_server)
  note t = FetchChan_fetch_error_panics
    [OF e result_set_response_fields(1) result_set_response_fields(2)
        result_set_response_fields(3) header_fields(1) header_fields(2) p lt s]
  then show ?thesis
    by (simp add: fresh_conn_def five_rows_def)
qed

section \<open>Pagination against any server that serves the result set\<close>

lemma fetch_page_served:
  assumes "0 < M" and "\<forall>r \<in> set page. length r = M"
    and "sk (fetchJSON rsh i (64 * 1024 * 1024)) (sock c) = (ResponseData resp, s')"
    and "jget resp ''numRows'' = JNum n"
    and "jget resp ''data'' = JArr (column_major page M)"
  shows "fetch_page sk rsh i ch c
           = Inr (i + n, ch\<lparr>rows := rows ch @ page\<rparr>,
                  c\<lparr>sent := sent c @ [fetchJSON rsh i (64 * 1024 * 1024)], sock := s'\<rparr>)"
  using assms(3)
  by (simp add: fetch_page_def send_def assms(4) assms(5)
        transposeToChan_column_major [OF assms(1) assms(2)])

lemma pages_served:
  assumes M: "0 < M" and u: "\<forall>r \<in> set all. length r = M"
    and server: "\<forall>i s. i < length all \<longrightarrow>
        (\<exists>page resp s'. page \<noteq> [] \<and> length page \<le> C \<and> prefix page (drop i all)
           \<and> sk (fetchJSON rsh (int i) (64 * 1024 * 1024)) s = (ResponseData resp, s')
           \<and> jget resp ''numRows'' = JNum (int (length page))
           \<and> jget resp ''data'' = JArr (column_major page M))"
  shows "i \<le> length all \<Longrightarrow>
     \<exists>pages c2. concat pages = drop i all
        \<and> (\<forall>p \<in> set pages. p \<noteq> [] \<and> length p \<le> C)
        \<and> sent c2 = sent c @ map (\<lambda>k. fetchJSON rsh (int k) (64 * 1024 * 1024)) (starts i pages)
        \<and> fetch_pages sk rsh (int (length all)) (int i) ch c
            = Some (Returned (), ch\<lparr>rows := rows ch @ drop i all\<rparr>, c2)"
proof (induction "length all - i" arbitrary: i ch c rule: less_induct)
  case less
  show ?case
  proof (cases "i = length all")
    case True
    have "fetch_pages sk rsh (int (length all)) (int i) ch c = Some (Returned (), ch, c)"
      using True by (simp add: fetch_pages_done)
    then have "concat [] = drop i all
        \<and> (\<forall>p \<in> set ([] :: json list list list). p \<noteq> [] \<and> length p \<le> C)
        \<and> sent c = sent c @ map (\<lambda>k. fetchJSON rsh (int k) (64 * 1024 * 1024)) (starts i [])
        \<and> fetch_pages sk rsh (int (length all)) (int i) ch c
            = Some (Returned (), ch\<lparr>rows := rows ch @ drop i all\<rparr>, c)"
      using True by simp
    then show ?thesis by blast
  next
    case False
    with less.prems have lt: "i < length all" by simp
    from server lt obtain page resp s' where
      ne: "page \<noteq> []" and cap: "length page \<le> C" and pre: "prefix page (drop i all)"
      and reply: "sk (fetchJSON rsh (int i) (64 * 1024 * 1024)) (sock c) = (ResponseData resp, s')"
      and n: "jget resp ''numRows'' = JNum (int (length page))"
      and dta: "jget resp ''data'' = JArr (column_major page M)"
      by blast
    from pre obtain rest where split: "drop i all = page @ rest" by (auto simp: prefix_def)
    have up: "\<forall>r \<in> set page. length r = M"
    proof
      fix r assume "r \<in> set page"
      then have "r \<in> set (drop i all)" using split by simp
      then have "r \<in> set all" by (rule in_set_dropD)
      with u show "length r = M" by simp
    qed
    let ?i' = "i + length page"
    let ?ch' = "ch\<lparr>rows := rows ch @ page\<rparr>"
    let ?c' = "c\<lparr>sent := sent c @ [fetchJSON rsh (int i) (64 * 1024 * 1024)], sock := s'\<rparr>"
    have len: "length page \<le> length all - i"
    proof -
      have "length (drop i all) = length page + length rest" using split by simp
      then show ?thesis by simp
    qed
    have le: "?i' \<le> length all" using len lt by simp
    have pos: "0 < length page" using ne by simp
    have dec: "length all - ?i' < length all - i" using pos lt by arith
    have rest: "drop ?i' all = rest"
    proof -
      have "drop ?i' all = drop (length page) (drop i all)" by (simp add: add.commute)
      then show ?thesis by (simp add: split)
    qed
    have step: "fetch_page sk rsh (int i) ch c = Inr (int ?i', ?ch', ?c')"
      using fetch_page_served
        [where sk = sk and c = c and page = page and M = M and ch = ch, OF M up reply n dta]
      by simp
    have ilt: "int i < int (length all)" using lt by simp
    have run: "fetch_pages sk rsh (int (length all)) (int i) ch c
          = fetch_pages sk rsh (int (length all)) (int ?i') ?ch' ?c'"
      by (rule fetch_pages_step [OF ilt step])
    from less.hyps [OF dec le, of ?c' ?ch'] obtain pages c2 where
      cc: "concat pages = drop ?i' all"
      and ps: "\<forall>p \<in> set pages. p \<noteq> [] \<and> length p \<le> C"
      and snt: "sent c2 = sent ?c' @ map (\<lambda>k. fetchJSON rsh (int k) (64 * 1024 * 1024)) (starts ?i' pages)"
      and fp: "fetch_pages sk rsh (int (length all)) (int ?i') ?ch' ?c'
            = Some (Returned (), ?ch'\<lparr>rows := rows ?ch' @ drop ?i' all\<rparr>, c2)"
      by blast
    have 1: "concat (page # pages) = drop i all" using cc rest split by simp
    have 2: "\<forall>p \<in> set (page # pages). p \<noteq> [] \<and> length p \<le> C" using ps ne cap by simp
    have 3: "sent c2 = sent c @ map (\<lambda>k. fetchJSON rsh (int k) (64 * 1024 * 1024)) (starts i (page # pages))"
      using snt by simp
    have 4: "fetch_pages sk rsh (int (length all)) (int i) ch c
            = Some (Returned (), ch\<lparr>rows := rows ch @ drop i all\<rparr>, c2)"
      unfolding run fp using rest split by simp
    from 1 2 3 4 show ?thesis by blast
  qed
qed

text \<open>
  C7. Let the response carry a result-set handle \<open>rsh\<close> and the row count \<open>R\<close> of a
  result set that is not empty (the zero-row case comes first), and let the server
  answer every fetch for \<open>rsh\<close> with rows of the result set from the start position on,
  at least one and at most \<open>C\<close>. Then \<open>FetchChan\<close>, for any query, with or without
  bindings, issues fetch requests for \<open>rsh\<close> with a byte budget of 64 MiB, the first at
  offset 0 and each later one at the offset before plus the number of rows the fetch
  before returned, until the \<open>R\<close> rows are retrieved; the pages fetched, concatenated in
  call order, are the rows of the result set, and these are the rows sent on the
  channel; then it sends exactly one \<^verbatim>\<open>closeResultSet\<close> request for \<open>rsh\<close> and closes
  the channel.
\<close>

theorem FetchChan_paginates:
  assumes "Execute d sql \<lparr>binds = [bs], schema = sch, dataTypes = None, isColumnar = False\<rparr> s0
             = (Returned (response, None), c1)"
    and "jget response ''numResults'' = JNum 1"
    and "jget response ''results'' = JArr (JObj results # others)"
    and "jget results ''resultSet'' = JObj rs"
    and "jget rs ''numRows'' = JNum (int (length all))"
    and "jget rs ''resultSetHandle'' = JNum rsh"
    and "all \<noteq> []" and "0 < M" and "\<forall>r \<in> set all. length r = M"
    and "\<forall>i s. i < length all \<longrightarrow>
        (\<exists>page resp s'. page \<noteq> [] \<and> length page \<le> C \<and> prefix page (drop i all)
           \<and> ws d (fetchJSON rsh (int i) (64 * 1024 * 1024)) s = (ResponseData resp, s')
           \<and> jget resp ''numRows'' = JNum (int (length page))
           \<and> jget resp ''data'' = JArr (column_major page M))"
  shows "\<exists>pages c2. concat pages = all
           \<and> (\<forall>p \<in> set pages. p \<noteq> [] \<and> length p \<le> C)
           \<and> sent c2 = sent c1 @ map (\<lambda>k. fetchJSON rsh (int k) (64 * 1024 * 1024)) (starts 0 pages)
           \<and> FetchChan d sql bs sch s0
               = Some (Returned (Streaming (Returned ()) \<lparr>rows = all, rows_closed = True\<rparr>),
                       snd (send (ws d) (closeResultSetJSON [rsh]) c2))"
proof -
  from pages_served [OF assms(8) assms(9) assms(10), of 0 c1 "\<lparr>rows = [], rows_closed = False\<rparr>"]
  obtain pages c2 where
    cc: "concat pages = all"
    and ps: "\<forall>p \<in> set pages. p \<noteq> [] \<and> length p \<le> C"
    and snt: "sent c2 = sent c1 @ map (\<lambda>k. fetchJSON rsh (int k) (64 * 1024 * 1024)) (starts 0 pages)"
    and fp: "fetch_pages (ws d) rsh (int (length all)) 0 \<lparr>rows = [], rows_closed = False\<rparr> c1
               = Some (Returned (), \<lparr>rows = all, rows_closed = False\<rparr>, c2)"
    by auto
  have "producer (ws d) rs \<lparr>rows = [], rows_closed = False\<rparr> c1
          = Some (Returned (), \<lparr>rows = all, rows_closed = True\<rparr>,
                  snd (send (ws d) (closeResultSetJSON [rsh]) c2))"
    using assms(7) by (simp add: producer_def assms(5) assms(6) fp split: prod.split)
  then have "FetchChan d sql bs sch s0
               = Some (Returned (Streaming (Returned ()) \<lparr>rows = all, rows_closed = True\<rparr>),
                       snd (send (ws d) (closeResultSetJSON [rsh]) c2))"
    by (simp add: FetchChan_producer [OF assms(1-4)])
  with cc ps snt show ?thesis by blast
qed

lemma page_server_serves:
  assumes "0 < C'" and "C' \<le> C"
  shows "\<forall>i s. i < length all \<longrightarrow>
        (\<exists>page resp s'. page \<noteq> [] \<and> length page \<le> C \<and> prefix page (drop i all)
           \<and> page_server all M C' h (\<lambda>k. None) (fetchJSON rsh (int i) (64 * 1024 * 1024)) s
               = (ResponseData resp, s')
           \<and> jget resp ''numRows'' = JNum (int (length page))
           \<and> jget resp ''data'' = JArr (column_major page M))"
proof (intro allI impI)
  fix i :: nat and s :: nat
  assume lt: "i < length all"
  let ?page = "take C' (drop i all)"
  let ?resp = "[(''numRows'', JNum (int (length ?page))), (''data'', JArr (column_major ?page M))]"
  have "?page \<noteq> []" using assms(1) lt by simp
  moreover have "length ?page \<le> C" using assms(2) by simp
  moreover have "prefix ?page (drop i all)" by (rule take_is_prefix)
  moreover have "page_server all M C' h (\<lambda>k. None) (fetchJSON rsh (int i) (64 * 1024 * 1024)) s
               = (ResponseData ?resp, Suc s)"
    by (simp add: page_server_def)
  moreover have "jget ?resp ''numRows'' = JNum (int (length ?page))" by (simp add: jget_def)
  moreover have "jget ?resp ''data'' = JArr (column_major ?page M)" by (simp add: jget_def)
  ultimately show "\<exists>page resp s'. page \<noteq> [] \<and> length page \<le> C \<and> prefix page (drop i all)
           \<and> page_server all M C' h (\<lambda>k. None) (fetchJSON rsh (int i) (64 * 1024 * 1024)) s
               = (ResponseData resp, s')
           \<and> jget resp ''numRows'' = JNum (int (length page))
           \<and> jget resp ''data'' = JArr (column_major page M)"
    by blast
qed

lemma Transpose_bound: "Transpose [[JNum 0]] = Returned [[JNum 0]]"
  by (simp add: Transpose_def)

lemma Execute_bound_page_server:
  "Execute (model_deps (page_server all M C h fail)) bound_sql
     \<lparr>binds = [[JNum 0]], schema = [], dataTypes = None, isColumnar = False\<rparr> fresh_conn
   = (Returned (result_set_response
                  [(''numRows'', JNum (int (length all))), (''resultSetHandle'', JNum h)], None),
      fresh_conn
        \<lparr>prepStmtCache := [bound_sql \<mapsto> 0],
         stmts := [0 \<mapsto> \<lparr>sth = 1,
                           columnDefs = [JObj [(''dataType'', JObj [(''type'', JStr ''DECIMAL'')])]]\<rparr>],
         allocated := 1,
         sent := [createPrepStmtJSON [] bound_sql,
                  execPrepStmtJSON 1 1 1 [JObj [(''dataType'', JObj [(''type'', JStr ''DECIMAL'')])]]
                    [[JNum 0]]]\<rparr>)"
  by (simp add: Execute_def Execute_return_def model_deps_def getPrepStmt_model_def send_def
        page_server_def fresh_conn_def jget_def Transpose_bound Let_def)

theorem FetchChan_paginates_witness:
  "map_option fst
     (FetchChan (model_deps (page_server five_rows 2 2 77 (\<lambda>k. None))) bound_sql [JNum 0] []
        fresh_conn)
     = Some (Returned (Streaming (Returned ()) \<lparr>rows = five_rows, rows_closed = True\<rparr>))
   \<and> map_option (\<lambda>r. sent (snd r))
     (FetchChan (model_deps (page_server five_rows 2 2 77 (\<lambda>k. None))) bound_sql [JNum 0] []
        fresh_conn)
     = Some [createPrepStmtJSON [] bound_sql,
             execPrepStmtJSON 1 1 1 [JObj [(''dataType'', JObj [(''type'', JStr ''DECIMAL'')])]]
               [[JNum 0]],
             fetchJSON 77 0 67108864, fetchJSON 77 2 67108864, fetchJSON 77 4 67108864,
             closeResultSetJSON [77]]"
proof -
  let ?srv = "page_server five_rows 2 2 77 (\<lambda>k. None)"
  let ?d = "model_deps ?srv"
  have two: "(0::nat) < 2" by simp
  have cap: "(2::nat) \<le> 3" by simp
  note e = Execute_bound_page_server
    [where all = five_rows and M = 2 and C = 2 and h = 77 and fail = "\<lambda>k. None"]
  have server: "\<forall>i s. i < length five_rows \<longrightarrow>
        (\<exists>page resp s'. page \<noteq> [] \<and> length page \<le> 3 \<and> prefix page (drop i five_rows)
           \<and> ws ?d (fetchJSON 77 (int i) (64 * 1024 * 1024)) s = (ResponseData resp, s')
           \<and> jget resp ''numRows'' = JNum (int (length page))
           \<and> jget resp ''data'' = JArr (column_major page 2))"
    unfolding ws_model_deps by (rule page_server_serves [OF two cap])
  from FetchChan_paginates
    [OF e result_set_response_fields(1) result_set_response_fields(2)
        result_set_response_fields(3) header_fields(1) header_fields(2)
        five_rows_shape(3) two five_rows_shape(2) server]
  obtain c2 where
    "FetchChan ?d bound_sql [JNum 0] [] fresh_conn
       = Some (Returned (Streaming (Returned ()) \<lparr>rows = five_rows, rows_closed = True\<rparr>),
               snd (send (ws ?d) (closeResultSetJSON [77]) c2))"
    by blast
  then have 1: "map_option fst (FetchChan ?d bound_sql [JNum 0] [] fresh_conn)
     = Some (Returned (Streaming (Returned ()) \<lparr>rows = five_rows, rows_closed = True\<rparr>))"
    by simp
  have upt3: "[0..<3] = [0, 1, 2]" by (simp add: upt_rec)
  have w: "ws ?d = ?srv" by (rule ws_model_deps)
  note t = FetchChan_page_cap
    [OF e result_set_response_fields(1) result_set_response_fields(2)
        result_set_response_fields(3) header_fields(1) header_fields(2) w
        five_rows_shape(3) two two five_rows_shape(2)]
  then have 2: "map_option (\<lambda>r. sent (snd r)) (FetchChan ?d bound_sql [JNum 0] [] fresh_conn)
     = Some [createPrepStmtJSON [] bound_sql,
             execPrepStmtJSON 1 1 1 [JObj [(''dataType'', JObj [(''type'', JStr ''DECIMAL'')])]]
               [[JNum 0]],
             fetchJSON 77 0 67108864, fetchJSON 77 2 67108864, fetchJSON 77 4 67108864,
             closeResultSetJSON [77]]"
    by (simp add: five_rows_shape(1) upt3 fresh_conn_def)
  from 1 2 show ?thesis by simp
qed

end
